theory Spec2Isabelle
  imports Main
begin

section \<open>JavaScript strings and arrays\<close>

text \<open>
  A JavaScript string is modelled as a \<^typ>\<open>string\<close>: a list of characters, each one code
  unit below 256.  The functions of this section are the library functions that
  \<^verbatim>\<open>soap-client.js\<close> calls on strings and arrays.
\<close>

text \<open>\<^verbatim>\<open>s.split(c)\<close> for a one-character separator: never the empty array.\<close>

fun split_on :: "char \<Rightarrow> string \<Rightarrow> string list" where
  "split_on c [] = [[]]"
| "split_on c (x # xs) =
     (if x = c then [] # split_on c xs
      else (case split_on c xs of
              [] \<Rightarrow> [[x]]
            | y # ys \<Rightarrow> (x # y) # ys))"

text \<open>\<^verbatim>\<open>s.split(c)[0]\<close>: the first field.\<close>

definition first_field :: "char \<Rightarrow> string \<Rightarrow> string" where
  "first_field c s = hd (split_on c s)"

text \<open>\<^verbatim>\<open>xs.join(sep)\<close> on an array of strings.\<close>

fun js_join :: "string \<Rightarrow> string list \<Rightarrow> string" where
  "js_join sep [] = []"
| "js_join sep [x] = x"
| "js_join sep (x # y # ys) = x @ sep @ js_join sep (y # ys)"

text \<open>\<^verbatim>\<open>s.startsWith(p)\<close>.\<close>

fun startsWith :: "string \<Rightarrow> string \<Rightarrow> bool" where
  "startsWith s [] = True"
| "startsWith [] (p # ps) = False"
| "startsWith (x # xs) (p # ps) = (x = p \<and> startsWith xs ps)"

text \<open>
  White space as \<^verbatim>\<open>\s\<close> and \<^verbatim>\<open>trim\<close> see it, among the code units below 256:
  tab, line feed, vertical tab, form feed, carriage return, space, no-break space.
\<close>

definition is_space :: "char \<Rightarrow> bool" where
  "is_space c = (c = CHR 0x09 \<or> c = CHR 0x0A \<or> c = CHR 0x0B \<or> c = CHR 0x0C \<or>
                 c = CHR 0x0D \<or> c = CHR 0x20 \<or> c = CHR 0xA0)"

definition is_line_end :: "char \<Rightarrow> bool" where
  "is_line_end c = (c = CHR 0x0D \<or> c = CHR 0x0A)"

text \<open>\<^verbatim>\<open>s.trim()\<close>.\<close>

definition trim :: "string \<Rightarrow> string" where
  "trim s = rev (dropWhile is_space (rev (dropWhile is_space s)))"

text \<open>Truthiness of a string: every string but the empty one.\<close>

definition truthy :: "string \<Rightarrow> bool" where
  "truthy s = (s \<noteq> [])"

section \<open>Values, errors, the console\<close>

text \<open>
  A value where the code expects a cookie string: a string, or a truthy value of another
  type, on which \<^verbatim>\<open>.split\<close> is not a function.
\<close>

datatype js_value = JsString string | JsOther

text \<open>
  What a \<^verbatim>\<open>set-cookie\<close> entry of a header object holds: one value or an array of values.
  A missing entry, and a falsy value that is not a string, are \<^const>\<open>None\<close> in the header map.
\<close>

datatype header_value = Single js_value | Many "js_value list"

type_synonym headers = "string \<rightharpoonup> header_value"

fun truthy_header :: "header_value \<Rightarrow> bool" where
  "truthy_header (Single (JsString s)) = truthy s"
| "truthy_header (Single JsOther) = True"
| "truthy_header (Many vs) = True"

datatype js_error = TypeError | Error string

datatype 'a outcome = Returned 'a | Threw js_error

datatype apply_obstacle = NoClient | NoDomain

text \<open>The lines the class writes with \<^verbatim>\<open>console.log\<close> and \<^verbatim>\<open>console.error\<close>.\<close>

datatype log_line =
    PreloadingCookies string string
  | ConnectedTo string
  | DomainIs string
  | SwitchingDomain string string
  | ConnectFailed js_error
  | ExecuteFailed string js_error
  | FoundInClientHeaders
  | FoundInRawHeaders
  | FoundInRawText
  | NoCookiesFound
  | ExtractionError js_error
  | SessionCookiesUpdated string string
  | CannotApply apply_obstacle
  | AppliedCookies string string
  | CookiesWillBeUsed string
  | NoExistingCookies string
  | CookiesCleared string
  | DomainAndCookieRequired
  | AddedCookies string string

section \<open>The state of a SOAPClient\<close>

text \<open>
  The client object of the SOAP library, as far as the class reads and writes it: the
  outgoing HTTP headers (an undefined header object reads as the empty map) and the
  headers of the last response.
\<close>

record soap_client =
  httpHeaders :: "string \<rightharpoonup> string"
  lastResponseHeaders :: "headers option"

text \<open>
  Modelled from the spec: \<^verbatim>\<open>addHttpHeader\<close> belongs to the SOAP library; the spec calls it
  \<^verbatim>\<open>Connection.setHeader(name, value)\<close>.
\<close>

definition addHttpHeader :: "soap_client \<Rightarrow> string \<Rightarrow> string \<Rightarrow> soap_client" where
  "addHttpHeader c name v = c\<lparr>httpHeaders := (httpHeaders c)(name \<mapsto> v)\<rparr>"

record client_state =
  client :: "soap_client option"
  authCookie :: "string option"
  wsdlUrl :: "string option"
  serviceUrl :: "string option"
  sessionCookies :: "string \<rightharpoonup> string list"
  currentDomain :: "string option"
  console :: "log_line list"

text \<open>The constructor.\<close>

definition new_client :: client_state where
  "new_client = \<lparr>client = None, authCookie = None, wsdlUrl = None, serviceUrl = None,
                  sessionCookies = Map.empty, currentDomain = None, console = []\<rparr>"

definition log :: "client_state \<Rightarrow> log_line list \<Rightarrow> client_state" where
  "log st ls = st\<lparr>console := console st @ ls\<rparr>"

section \<open>The cookie store\<close>

subsection \<open>applyCookiesForDomain\<close>

definition applyCookiesForDomain :: "client_state \<Rightarrow> string \<Rightarrow> client_state" where
  "applyCookiesForDomain st domain =
     (case client st of
        None \<Rightarrow> log st [CannotApply NoClient]
      | Some c \<Rightarrow>
          if \<not> truthy domain then log st [CannotApply NoDomain]
          else
            (case sessionCookies st domain of
               None \<Rightarrow> log st [NoExistingCookies domain]
             | Some domainCookies \<Rightarrow>
                 if domainCookies = [] then log st [NoExistingCookies domain]
                 else
                   (let cookieString = js_join ''; '' domainCookies;
                        c1 = (case httpHeaders c ''Cookie'' of
                                None \<Rightarrow> c
                              | Some h \<Rightarrow>
                                  if truthy h
                                  then c\<lparr>httpHeaders := (httpHeaders c)(''Cookie'' := None)\<rparr>
                                  else c);
                        c2 = addHttpHeader c1 ''Cookie'' cookieString
                    in log (st\<lparr>client := Some c2, authCookie := Some cookieString\<rparr>)
                         [AppliedCookies domain cookieString, CookiesWillBeUsed domain])))"

subsection \<open>processCookies\<close>

text \<open>\<^verbatim>\<open>this.sessionCookies.get(domain) || []\<close>: an array is truthy, also the empty one.\<close>

definition domain_cookies :: "client_state \<Rightarrow> string \<Rightarrow> string list" where
  "domain_cookies st domain = (case sessionCookies st domain of None \<Rightarrow> [] | Some cs \<Rightarrow> cs)"

text \<open>\<^verbatim>\<open>const cookiePart = cookie.split(';')[0]\<close>: the attributes go.\<close>

definition cookie_part :: "string \<Rightarrow> string" where
  "cookie_part cookie = first_field CHR '';'' cookie"

text \<open>The name of a cookie: \<^verbatim>\<open>const [name] = cookiePart.split('=')\<close>.\<close>

definition cookie_name :: "string \<Rightarrow> string" where
  "cookie_name cookiePart = first_field CHR ''='' cookiePart"

text \<open>
  The test of the filter, \<^verbatim>\<open>existing.startsWith(name + '=')\<close>: the stored entry is for this
  name.  An entry without \<^verbatim>\<open>=\<close> is for no name.
\<close>

definition entry_for :: "string \<Rightarrow> string \<Rightarrow> bool" where
  "entry_for name existing = startsWith existing (name @ ''='')"

text \<open>
  One round of the loop body for a string \<^verbatim>\<open>cookie\<close>.  The array \<^verbatim>\<open>domainCookies\<close> was read
  before the loop and is the same in every round.
\<close>

definition merged :: "string list \<Rightarrow> string \<Rightarrow> string list" where
  "merged domainCookies cookie =
     (let cookiePart = cookie_part cookie;
          name = cookie_name cookiePart;
          filtered = filter (\<lambda>existing. \<not> entry_for name existing) domainCookies
      in filtered @ [cookiePart])"

text \<open>
  \<^verbatim>\<open>cookieArray.forEach\<close>: a value that is not a string has no \<^verbatim>\<open>split\<close>, the round throws
  and the loop ends there, the rounds before it having written the store.
\<close>

fun forEach_cookie ::
  "string list \<Rightarrow> string \<Rightarrow> js_value list \<Rightarrow> client_state \<Rightarrow> unit outcome \<times> client_state"
where
  "forEach_cookie domainCookies domain [] st = (Returned (), st)"
| "forEach_cookie domainCookies domain (JsOther # rest) st = (Threw TypeError, st)"
| "forEach_cookie domainCookies domain (JsString cookie # rest) st =
     forEach_cookie domainCookies domain rest
       (st\<lparr>sessionCookies := (sessionCookies st)(domain \<mapsto> merged domainCookies cookie)\<rparr>)"

text \<open>\<^verbatim>\<open>Array.isArray(cookies) ? cookies : [cookies]\<close>.\<close>

fun cookie_array :: "header_value \<Rightarrow> js_value list" where
  "cookie_array (Many vs) = vs"
| "cookie_array (Single v) = [v]"

definition processCookies ::
  "client_state \<Rightarrow> header_value \<Rightarrow> string \<Rightarrow> unit outcome \<times> client_state"
where
  "processCookies st cookies domain =
     (let cookieArray = cookie_array cookies;
          domainCookies = domain_cookies st domain
      in case forEach_cookie domainCookies domain cookieArray st of
           (Threw e, st1) \<Rightarrow> (Threw e, st1)
         | (Returned u, st1) \<Rightarrow>
             (let st2 = applyCookiesForDomain st1 domain
              in case sessionCookies st2 domain of
                   None \<Rightarrow> (Threw TypeError, st2)
                 | Some cs \<Rightarrow>
                     (Returned (), log st2 [SessionCookiesUpdated domain (js_join ''; '' cs)])))"

subsection \<open>getSessionCookies, clearSessionCookies, addCookiesForDomain\<close>

definition getSessionCookies :: "client_state \<Rightarrow> string option" where
  "getSessionCookies st =
     (case currentDomain st of
        None \<Rightarrow> None
      | Some d \<Rightarrow>
          if \<not> truthy d then None
          else (case sessionCookies st d of
                  None \<Rightarrow> None
                | Some cookies \<Rightarrow> Some (js_join ''; '' cookies)))"

text \<open>The argument is \<^const>\<open>None\<close> when the caller leaves \<^verbatim>\<open>domain\<close> out (or passes null).\<close>

definition clearSessionCookies :: "client_state \<Rightarrow> string option \<Rightarrow> client_state" where
  "clearSessionCookies st domain =
     (let targetDomain =
            (case domain of
               None \<Rightarrow> currentDomain st
             | Some d \<Rightarrow> if truthy d then Some d else currentDomain st)
      in case targetDomain of
           None \<Rightarrow> st
         | Some t \<Rightarrow>
             if truthy t
             then log (st\<lparr>sessionCookies := (sessionCookies st)(t := None)\<rparr>) [CookiesCleared t]
             else st)"

definition addCookiesForDomain :: "client_state \<Rightarrow> string \<Rightarrow> string \<Rightarrow> bool \<times> client_state" where
  "addCookiesForDomain st domain cookieString =
     (if \<not> truthy domain \<or> \<not> truthy cookieString
      then (False, log st [DomainAndCookieRequired])
      else
        (let cookies = map trim (split_on CHR '';'' cookieString);
             st1 = st\<lparr>sessionCookies := (sessionCookies st)(domain \<mapsto> cookies)\<rparr>;
             st2 = (if currentDomain st1 = Some domain \<and> client st1 \<noteq> None
                    then applyCookiesForDomain st1 domain else st1)
         in (True, log st2 [AddedCookies domain cookieString])))"

section \<open>Cookie extraction\<close>

subsection \<open>The scan of a textual body\<close>

text \<open>
  \<^verbatim>\<open>/Set-Cookie:\s*([^\r\n]+)/gi\<close>.  Without the \<^verbatim>\<open>u\<close> flag, ignoring case folds the
  ASCII letters only.
\<close>

definition lower_ascii :: "char \<Rightarrow> nat" where
  "lower_ascii c =
     (let n = (of_char c :: nat) in if 65 \<le> n \<and> n \<le> 90 then n + 32 else n)"

definition is_header :: "string \<Rightarrow> bool" where
  "is_header s = (map lower_ascii (take 11 s) = map of_char ''set-cookie:'')"

text \<open>
  The rest of the pattern, matched on what follows the header name: the text matched and
  the input left.  \<^verbatim>\<open>\s*\<close> takes all the white space; when the input ends there, it gives
  back characters until \<^verbatim>\<open>[^\r\n]+\<close> finds one that is not a line end.
\<close>

definition match_value :: "string \<Rightarrow> (string \<times> string) option" where
  "match_value r =
     (let ws = takeWhile is_space r;
          rest = dropWhile is_space r
      in if rest \<noteq> []
         then Some (ws @ takeWhile (\<lambda>c. \<not> is_line_end c) rest,
                    dropWhile (\<lambda>c. \<not> is_line_end c) rest)
         else
           (let kept = rev (dropWhile is_line_end (rev ws))
            in if kept = [] then None
               else Some (kept, rev (takeWhile is_line_end (rev ws)))))"

lemma match_value_shorter: "match_value r = Some (m, rest) \<Longrightarrow> length rest \<le> length r"
proof -
  assume h: "match_value r = Some (m, rest)"
  have a: "length (dropWhile (\<lambda>c. \<not> is_line_end c) (dropWhile is_space r)) \<le> length r"
    by (meson length_dropWhile_le le_trans)
  have "length (takeWhile is_line_end (rev (takeWhile is_space r))) \<le> length (takeWhile is_space r)"
    by (metis length_rev length_takeWhile_le)
  moreover have "length (takeWhile is_space r) \<le> length r"
    by (rule length_takeWhile_le)
  ultimately have b: "length (rev (takeWhile is_line_end (rev (takeWhile is_space r)))) \<le> length r"
    by simp
  from h a b show ?thesis
    by (auto simp: match_value_def Let_def split: if_splits)
qed

text \<open>\<^verbatim>\<open>raw.match(...)\<close> with the \<^verbatim>\<open>g\<close> flag: every match, left to right; no match is null.\<close>

function scan_set_cookie :: "string \<Rightarrow> string list" where
  "scan_set_cookie [] = []"
| "scan_set_cookie (x # xs) =
     (if is_header (x # xs)
      then (case match_value (drop 11 (x # xs)) of
              None \<Rightarrow> scan_set_cookie xs
            | Some (m, rest) \<Rightarrow> (take 11 (x # xs) @ m) # scan_set_cookie rest)
      else scan_set_cookie xs)"
  by pat_completeness auto
termination
proof (relation "measure length")
  fix x :: char and xs x2 m rest
  assume "match_value (drop 11 (x # xs)) = Some x2" and "(m, rest) = x2"
  then have "length rest \<le> length (drop 11 (x # xs))"
    using match_value_shorter by metis
  then show "(rest, x # xs) \<in> measure length" by simp
qed simp_all

text \<open>\<^verbatim>\<open>match.replace(/Set-Cookie:\s*/i, '')\<close>: the first occurrence goes.\<close>

fun strip_set_cookie :: "string \<Rightarrow> string" where
  "strip_set_cookie [] = []"
| "strip_set_cookie (x # xs) =
     (if is_header (x # xs) then dropWhile is_space (drop 11 (x # xs))
      else x # strip_set_cookie xs)"

subsection \<open>The result of a call\<close>

text \<open>
  \<^verbatim>\<open>result.raw\<close>: falsy and not a string; a string; or another truthy value, with the
  \<^verbatim>\<open>headers\<close> object it has, if any.
\<close>

datatype raw_response = RawAbsent | RawText string | RawObject "headers option"

record call_result =
  payload :: string
  raw :: raw_response

subsection \<open>The three sources, in the order of the code\<close>

text \<open>
  \<^verbatim>\<open>this.client && this.client.lastResponseHeaders &&
  this.client.lastResponseHeaders['set-cookie']\<close>, when truthy.
\<close>

definition client_set_cookie :: "client_state \<Rightarrow> header_value option" where
  "client_set_cookie st =
     (case client st of
        None \<Rightarrow> None
      | Some c \<Rightarrow>
          (case lastResponseHeaders c of
             None \<Rightarrow> None
           | Some h \<Rightarrow>
               (case h ''set-cookie'' of
                  None \<Rightarrow> None
                | Some v \<Rightarrow> if truthy_header v then Some v else None)))"

text \<open>\<^verbatim>\<open>result.raw && result.raw.headers && result.raw.headers['set-cookie']\<close>, when truthy.\<close>

definition raw_set_cookie :: "call_result \<Rightarrow> header_value option" where
  "raw_set_cookie r =
     (case raw r of
        RawObject (Some h) \<Rightarrow>
          (case h ''set-cookie'' of
             None \<Rightarrow> None
           | Some v \<Rightarrow> if truthy_header v then Some v else None)
      | _ \<Rightarrow> None)"

text \<open>The matches in a textual \<^verbatim>\<open>result.raw\<close>, the header name taken off each.\<close>

definition text_set_cookie :: "call_result \<Rightarrow> header_value option" where
  "text_set_cookie r =
     (case raw r of
        RawText s \<Rightarrow>
          (case scan_set_cookie s of
             [] \<Rightarrow> None
           | m # ms \<Rightarrow> Some (Many (map (\<lambda>match. JsString (strip_set_cookie match)) (m # ms))))
      | _ \<Rightarrow> None)"

text \<open>
  A found value goes to \<^verbatim>\<open>processCookies\<close> after the line on the console; the flag
  \<^verbatim>\<open>foundCookies\<close> is set when that call returns.
\<close>

definition found ::
  "client_state \<Rightarrow> log_line \<Rightarrow> header_value \<Rightarrow> string \<Rightarrow> bool outcome \<times> client_state"
where
  "found st line v domain =
     (case processCookies (log st [line]) v domain of
        (Threw e, s) \<Rightarrow> (Threw e, s)
      | (Returned u, s) \<Rightarrow> (Returned True, s))"

definition from_client_headers :: "client_state \<Rightarrow> string \<Rightarrow> bool outcome \<times> client_state" where
  "from_client_headers st domain =
     (case client_set_cookie st of
        None \<Rightarrow> (Returned False, st)
      | Some v \<Rightarrow> found st FoundInClientHeaders v domain)"

text \<open>A \<^verbatim>\<open>result\<close> that is null or undefined is \<^const>\<open>None\<close>: reading \<^verbatim>\<open>result.raw\<close> throws.\<close>

definition from_raw_headers ::
  "bool \<Rightarrow> client_state \<Rightarrow> call_result option \<Rightarrow> string \<Rightarrow> bool outcome \<times> client_state"
where
  "from_raw_headers foundCookies st result domain =
     (if foundCookies then (Returned True, st)
      else (case result of
              None \<Rightarrow> (Threw TypeError, st)
            | Some r \<Rightarrow>
                (case raw_set_cookie r of
                   None \<Rightarrow> (Returned False, st)
                 | Some v \<Rightarrow> found st FoundInRawHeaders v domain)))"

definition from_raw_text ::
  "bool \<Rightarrow> client_state \<Rightarrow> call_result option \<Rightarrow> string \<Rightarrow> bool outcome \<times> client_state"
where
  "from_raw_text foundCookies st result domain =
     (if foundCookies then (Returned True, st)
      else (case result of
              None \<Rightarrow> (Threw TypeError, st)
            | Some r \<Rightarrow>
                (case text_set_cookie r of
                   None \<Rightarrow> (Returned False, st)
                 | Some v \<Rightarrow> found st FoundInRawText v domain)))"

text \<open>The body of the \<^verbatim>\<open>try\<close>.\<close>

definition extract_body ::
  "client_state \<Rightarrow> call_result option \<Rightarrow> string \<Rightarrow> unit outcome \<times> client_state"
where
  "extract_body st result domain =
     (case from_client_headers st domain of
        (Threw e, s) \<Rightarrow> (Threw e, s)
      | (Returned f1, s1) \<Rightarrow>
          (case from_raw_headers f1 s1 result domain of
             (Threw e, s) \<Rightarrow> (Threw e, s)
           | (Returned f2, s2) \<Rightarrow>
               (case from_raw_text f2 s2 result domain of
                  (Threw e, s) \<Rightarrow> (Threw e, s)
                | (Returned f3, s3) \<Rightarrow>
                    (Returned (), if \<not> f3 then log s3 [NoCookiesFound] else s3))))"

definition extractCookiesFromMultipleSources ::
  "client_state \<Rightarrow> call_result option \<Rightarrow> unit outcome \<times> client_state"
where
  "extractCookiesFromMultipleSources st result =
     (case currentDomain st of
        None \<Rightarrow> (Returned (), st)
      | Some d \<Rightarrow>
          if \<not> truthy d then (Returned (), st)
          else (case extract_body st result d of
                  (Threw e, s) \<Rightarrow> (Returned (), log s [ExtractionError e])
                | (Returned u, s) \<Rightarrow> (Returned (), s)))"

text \<open>The legacy entry point: \<^verbatim>\<open>{ raw: rawResponse }\<close> has no payload.\<close>

definition extractAndStoreCookies :: "client_state \<Rightarrow> raw_response \<Rightarrow> unit outcome \<times> client_state" where
  "extractAndStoreCookies st rawResponse =
     extractCookiesFromMultipleSources st (Some \<lparr>payload = [], raw = rawResponse\<rparr>)"

section \<open>The coordinator\<close>

subsection \<open>executeMethod\<close>

text \<open>
  Modelled from the spec: the call itself is the SOAP library's
  (\<^verbatim>\<open>Connection.invoke(methodName, params)\<close>).  It fails with an error or gives the result
  object, and either way leaves the headers of its response in \<^verbatim>\<open>lastResponseHeaders\<close>.
\<close>

datatype rpc_reply = RpcFailure js_error "headers option" | RpcSuccess call_result "headers option"

type_synonym rpc = "soap_client \<Rightarrow> string \<Rightarrow> string \<Rightarrow> rpc_reply"

definition executeMethod ::
  "client_state \<Rightarrow> rpc \<Rightarrow> string \<Rightarrow> string \<Rightarrow> string outcome \<times> client_state"
where
  "executeMethod st invoke methodName parameters =
     (case client st of
        None \<Rightarrow> (Threw (Error ''Not connected to any service''), st)
      | Some c \<Rightarrow>
          (case invoke c methodName parameters of
             RpcFailure err h \<Rightarrow>
               (Threw err,
                log (st\<lparr>client := Some (c\<lparr>lastResponseHeaders := h\<rparr>)\<rparr>)
                  [ExecuteFailed methodName err])
           | RpcSuccess result h \<Rightarrow>
               (case extractCookiesFromMultipleSources
                       (st\<lparr>client := Some (c\<lparr>lastResponseHeaders := h\<rparr>)\<rparr>) (Some result) of
                  (Threw err, s) \<Rightarrow> (Threw err, log s [ExecuteFailed methodName err])
                | (Returned u, s) \<Rightarrow> (Returned (payload result), s))))"

subsection \<open>connect\<close>

text \<open>
  What \<^verbatim>\<open>soap.createClientAsync\<close> gives: a rejection, or a client together with what reading
  the location of its first port gives (an exception when there is no service or port, else
  the location, which may be undefined).
\<close>

datatype service_location = LocationThrows | LocationIs "string option"

datatype construction = ConstructionFails js_error | Constructed soap_client service_location

definition connect_failed :: "client_state \<Rightarrow> js_error \<Rightarrow> bool outcome \<times> client_state" where
  "connect_failed st e = (Returned False, log st [ConnectFailed e])"

text \<open>
  The \<^verbatim>\<open>wsdl_headers\<close> given to the constructor: the stored cookies of the WSDL's domain,
  under the caller's own headers, when there are any.
\<close>

definition preloaded :: "client_state \<Rightarrow> string \<Rightarrow> bool" where
  "preloaded st targetDomain =
     (case sessionCookies st targetDomain of None \<Rightarrow> False | Some cs \<Rightarrow> cs \<noteq> [])"

definition preload_headers ::
  "client_state \<Rightarrow> string \<Rightarrow> (string \<rightharpoonup> string) option \<Rightarrow> (string \<rightharpoonup> string) option"
where
  "preload_headers st targetDomain wsdl_headers =
     (if preloaded st targetDomain
      then Some ([''Cookie'' \<mapsto> js_join ''; '' (domain_cookies st targetDomain)] ++
                 (case wsdl_headers of None \<Rightarrow> Map.empty | Some h \<Rightarrow> h))
      else wsdl_headers)"

text \<open>
  \<^verbatim>\<open>hostname\<close> is \<^verbatim>\<open>new url.URL(u).hostname\<close>, \<^const>\<open>None\<close> where the constructor throws;
  \<^verbatim>\<open>createClient\<close> is the library's constructor, given the URL and the \<^verbatim>\<open>wsdl_headers\<close>;
  \<^verbatim>\<open>wsdl_headers\<close> is the caller's option of that name.
\<close>

definition connect ::
  "client_state \<Rightarrow> (string \<Rightarrow> string option) \<Rightarrow>
   (string \<Rightarrow> (string \<rightharpoonup> string) option \<Rightarrow> construction) \<Rightarrow>
   string \<Rightarrow> (string \<rightharpoonup> string) option \<Rightarrow> bool outcome \<times> client_state"
where
  "connect st hostname createClient url wsdl_headers =
     (let st1 = st\<lparr>wsdlUrl := Some url\<rparr>
      in case hostname url of
           None \<Rightarrow> connect_failed st1 TypeError
         | Some targetDomain \<Rightarrow>
             (let cookieString = js_join ''; '' (domain_cookies st1 targetDomain);
                  st2 = (if preloaded st1 targetDomain
                         then log st1 [PreloadingCookies targetDomain cookieString]
                         else st1);
                  headers = preload_headers st1 targetDomain wsdl_headers
              in case createClient url headers of
                   ConstructionFails e \<Rightarrow> connect_failed st2 e
                 | Constructed c location \<Rightarrow>
                     (let st3 = st2\<lparr>client := Some c\<rparr>
                      in case location of
                           LocationThrows \<Rightarrow> connect_failed st3 TypeError
                         | LocationIs l \<Rightarrow>
                             (let st4 = st3\<lparr>serviceUrl := l\<rparr>
                              in case l of
                                   None \<Rightarrow> connect_failed st4 TypeError
                                 | Some u \<Rightarrow>
                                     (case hostname u of
                                        None \<Rightarrow> connect_failed st4 TypeError
                                      | Some serviceDomain \<Rightarrow>
                                          (let st5 = log st4 [ConnectedTo u, DomainIs serviceDomain];
                                               st6 =
                                                 (case currentDomain st5 of
                                                    None \<Rightarrow> st5
                                                  | Some cur \<Rightarrow>
                                                      if truthy cur \<and> cur \<noteq> serviceDomain
                                                      then log st5 [SwitchingDomain cur serviceDomain]
                                                      else st5);
                                               st7 = st6\<lparr>currentDomain := Some serviceDomain\<rparr>
                                           in (Returned True,
                                               applyCookiesForDomain st7 serviceDomain)))))))"

section \<open>Reachable states\<close>

text \<open>
  The states a \<^verbatim>\<open>SOAPClient\<close> can be in: the constructor's, and what the methods make
  of a reachable state.  The last rule stands for the writers that never touch the store:
  \<^verbatim>\<open>authenticate\<close>, the SOAP library, and \<^verbatim>\<open>disconnect\<close> of \<^verbatim>\<open>index.js\<close>, which assign
  \<^verbatim>\<open>client\<close>, \<^verbatim>\<open>authCookie\<close>, \<^verbatim>\<open>serviceUrl\<close> and \<^verbatim>\<open>wsdlUrl\<close>.
\<close>

inductive reachable :: "client_state \<Rightarrow> bool" where
  reach_new: "reachable new_client"
| reach_connect:
    "reachable st \<Longrightarrow> reachable (snd (connect st hostname createClient url wsdl_headers))"
| reach_executeMethod:
    "reachable st \<Longrightarrow> reachable (snd (executeMethod st invoke methodName parameters))"
| reach_extract:
    "reachable st \<Longrightarrow> reachable (snd (extractCookiesFromMultipleSources st result))"
| reach_processCookies:
    "reachable st \<Longrightarrow> reachable (snd (processCookies st cookies domain))"
| reach_apply:
    "reachable st \<Longrightarrow> reachable (applyCookiesForDomain st domain)"
| reach_clear:
    "reachable st \<Longrightarrow> reachable (clearSessionCookies st target)"
| reach_add:
    "reachable st \<Longrightarrow> reachable (snd (addCookiesForDomain st domain cookieString))"
| reach_other:
    "reachable st \<Longrightarrow>
     reachable (st\<lparr>client := c, authCookie := a, serviceUrl := s, wsdlUrl := w\<rparr>)"

section \<open>Notions of the specification, and examples\<close>

text \<open>The merge of one raw cookie string into the collection of a domain.\<close>

definition merge :: "client_state \<Rightarrow> string \<Rightarrow> string \<Rightarrow> client_state" where
  "merge st domain cookie = snd (processCookies st (Single (JsString cookie)) domain)"

text \<open>
  At most one entry per name, an entry being for a name as \<^const>\<open>entry_for\<close> has it: of the
  entries that contain \<^verbatim>\<open>=\<close>, no two have the same name.
\<close>

definition one_entry_per_name :: "string list \<Rightarrow> bool" where
  "one_entry_per_name cs = distinct (map cookie_name (filter (\<lambda>e. CHR ''='' \<in> set e) cs))"

text \<open>A connected session on \<^verbatim>\<open>a.example.com\<close> with three cookies in the store.\<close>

definition example_session :: client_state where
  "example_session =
     \<lparr>client = Some \<lparr>httpHeaders = Map.empty, lastResponseHeaders = None\<rparr>,
      authCookie = None, wsdlUrl = Some ''http://a.example.com/Login.svc?wsdl'',
      serviceUrl = Some ''http://a.example.com/Login.svc'',
      sessionCookies = [''a.example.com'' \<mapsto> [''a=1'', ''b=2'', ''c=3'']],
      currentDomain = Some ''a.example.com'', console = []\<rparr>"

text \<open>A login on \<^verbatim>\<open>a.example.com\<close> whose response sets a session cookie.\<close>

definition example_hostname :: "string \<Rightarrow> string option" where
  "example_hostname u =
     (if u = ''http://a.example.com/Login.svc?wsdl'' \<or> u = ''http://a.example.com/Login.svc''
      then Some ''a.example.com''
      else if u = ''http://b.example.org/Other.svc?wsdl'' then Some ''b.example.org''
      else None)"

definition example_createClient :: "string \<Rightarrow> (string \<rightharpoonup> string) option \<Rightarrow> construction" where
  "example_createClient u h =
     Constructed \<lparr>httpHeaders = Map.empty, lastResponseHeaders = None\<rparr>
       (LocationIs (Some ''http://a.example.com/Login.svc''))"

definition example_login :: rpc where
  "example_login c methodName parameters =
     RpcSuccess \<lparr>payload = ''ok'', raw = RawText ''<soap:Envelope/>''\<rparr>
       (Some [''set-cookie'' \<mapsto> Many [JsString ''SID=abc123; Path=/'']])"

definition example_connected :: client_state where
  "example_connected =
     snd (connect new_client example_hostname example_createClient
            ''http://a.example.com/Login.svc?wsdl'' None)"

definition example_logged_in :: client_state where
  "example_logged_in = snd (executeMethod example_connected example_login ''Login'' ''{}'')"

text \<open>A session whose connection carries a cookie header that the store does not hold.\<close>

definition example_authenticated :: client_state where
  "example_authenticated =
     \<lparr>client = Some \<lparr>httpHeaders = [''Cookie'' \<mapsto> ''AUTH=x''], lastResponseHeaders = None\<rparr>,
      authCookie = Some ''AUTH=x'', wsdlUrl = Some ''http://a.example.com/Login.svc?wsdl'',
      serviceUrl = Some ''http://a.example.com/Login.svc'',
      sessionCookies = Map.empty,
      currentDomain = Some ''a.example.com'', console = []\<rparr>"

text \<open>
  Extraction in the words of the specification: the sources in their order of priority,
  each with the line it is announced by, and the first that yields a value.
\<close>

definition sources :: "client_state \<Rightarrow> call_result \<Rightarrow> (log_line \<times> header_value option) list" where
  "sources st r =
     [(FoundInClientHeaders, client_set_cookie st),
      (FoundInRawHeaders, raw_set_cookie r),
      (FoundInRawText, text_set_cookie r)]"

fun first_yield :: "(log_line \<times> header_value option) list \<Rightarrow> (log_line \<times> header_value) option" where
  "first_yield [] = None"
| "first_yield ((line, None) # rest) = first_yield rest"
| "first_yield ((line, Some v) # rest) = Some (line, v)"

text \<open>What is found goes to \<^verbatim>\<open>processCookies\<close>; an exception ends as a line on the console.\<close>

definition handed :: "client_state \<Rightarrow> log_line \<Rightarrow> header_value \<Rightarrow> string \<Rightarrow> client_state" where
  "handed st line v d =
     (case processCookies (log st [line]) v d of
        (Threw e, s) \<Rightarrow> log s [ExtractionError e]
      | (Returned u, s) \<Rightarrow> s)"

definition extract_by_priority :: "client_state \<Rightarrow> call_result \<Rightarrow> string \<Rightarrow> client_state" where
  "extract_by_priority st r d =
     (case first_yield (sources st r) of
        None \<Rightarrow> log st [NoCookiesFound]
      | Some (line, v) \<Rightarrow> handed st line v d)"

text \<open>
  Every call of \<^verbatim>\<open>applyCookiesForDomain\<close> writes exactly one of three lines, and no other
  function writes them: the calls are counted on the console.
\<close>

fun is_apply_line :: "log_line \<Rightarrow> bool" where
  "is_apply_line (CannotApply why) = True"
| "is_apply_line (AppliedCookies d s) = True"
| "is_apply_line (NoExistingCookies d) = True"
| "is_apply_line line = False"

definition apply_calls :: "log_line list \<Rightarrow> nat" where
  "apply_calls ls = length (filter is_apply_line ls)"



text \<open>\<^verbatim>\<open>connected: !!this.client.client\<close>, as \<^verbatim>\<open>index.js\<close> reports it.\<close>

definition connected :: "client_state \<Rightarrow> bool" where
  "connected st = (case client st of None \<Rightarrow> False | Some c \<Rightarrow> True)"

text \<open>The \<^verbatim>\<open>Cookie\<close> header attached to the connection, if any.\<close>

definition cookie_header :: "client_state \<Rightarrow> string option" where
  "cookie_header st = (case client st of None \<Rightarrow> None | Some c \<Rightarrow> httpHeaders c ''Cookie'')"



definition example_fault :: rpc where
  "example_fault c methodName parameters = RpcFailure (Error ''soap:Server'') None"

definition example_empty_array :: rpc where
  "example_empty_array c methodName parameters =
     RpcSuccess \<lparr>payload = ''pong'', raw = RawAbsent\<rparr> (Some [''set-cookie'' \<mapsto> Many []])"

definition example_refused :: "string \<Rightarrow> (string \<rightharpoonup> string) option \<Rightarrow> construction" where
  "example_refused u h = ConstructionFails (Error ''ECONNREFUSED'')"

text \<open>A response with one cookie in its headers and another in its textual body.\<close>

definition example_both :: client_state where
  "example_both =
     \<lparr>client = Some \<lparr>httpHeaders = Map.empty,
                      lastResponseHeaders =
                        Some [''set-cookie'' \<mapsto> Many [JsString ''SID=abc123; Path=/'']]\<rparr>,
      authCookie = None, wsdlUrl = Some ''http://a.example.com/Login.svc?wsdl'',
      serviceUrl = Some ''http://a.example.com/Login.svc'',
      sessionCookies = Map.empty,
      currentDomain = Some ''a.example.com'', console = []\<rparr>"

definition example_body :: call_result where
  "example_body =
     \<lparr>payload = ''ok'',
      raw = RawText ''HTTP/1.1 200 OK\<newline>Set-Cookie: OTHER=zzz; Path=/\<newline>''\<rparr>"

text \<open>A session whose last response carried an empty array of cookies.\<close>

definition example_empty_headers :: client_state where
  "example_empty_headers =
     \<lparr>client = Some \<lparr>httpHeaders = Map.empty,
                      lastResponseHeaders = Some [''set-cookie'' \<mapsto> Many []]\<rparr>,
      authCookie = None, wsdlUrl = Some ''http://a.example.com/Login.svc?wsdl'',
      serviceUrl = Some ''http://a.example.com/Login.svc'',
      sessionCookies = Map.empty,
      currentDomain = Some ''a.example.com'', console = []\<rparr>"

text \<open>Results: a textual body with one cookie, a response object with a cookie in its headers.\<close>

definition example_token_body :: call_result where
  "example_token_body =
     \<lparr>payload = ''ok'', raw = RawText ''HTTP/1.1 200 OK\<newline>Set-Cookie: T=1\<newline>''\<rparr>"

definition example_raw_object :: call_result where
  "example_raw_object =
     \<lparr>payload = ''ok'',
      raw = RawObject (Some [''set-cookie'' \<mapsto> Many [JsString ''R=2; Path=/'']])\<rparr>"

text \<open>A result without cookies.\<close>

definition example_session_result :: call_result where
  "example_session_result = \<lparr>payload = ''pong'', raw = RawText ''<soap:Envelope/>''\<rparr>"

text \<open>A manual injection of three cookies, and one of a blank string, into a connected session.\<close>

definition example_injected :: client_state where
  "example_injected = snd (addCookiesForDomain example_connected ''a.example.com'' ''X=1; Y=2; Z=3'')"

definition example_blank :: client_state where
  "example_blank = snd (addCookiesForDomain example_connected ''a.example.com'' '' '')"

text \<open>A reply whose cookie has nothing before its attributes.\<close>

definition example_nameless :: rpc where
  "example_nameless c methodName parameters =
     RpcSuccess \<lparr>payload = ''ok'', raw = RawAbsent\<rparr>
       (Some [''set-cookie'' \<mapsto> Many [JsString ''; Path=/'']])"

section \<open>Strings\<close>

lemma split_on_not_Nil: "split_on c s \<noteq> []"
  by (induction s) (auto split: list.splits)

lemma first_field_takeWhile: "first_field c s = takeWhile (\<lambda>x. x \<noteq> c) s"
  unfolding first_field_def
  by (induction s) (auto split: list.splits simp: split_on_not_Nil)

lemma startsWith_append: "startsWith s p \<longleftrightarrow> (\<exists>t. s = p @ t)"
  by (induction s p rule: startsWith.induct) auto

lemma cookie_name_no_eq: "CHR ''='' \<notin> set (cookie_name p)"
  unfolding cookie_name_def first_field_takeWhile
  by (metis (mono_tags, lifting) set_takeWhileD)

lemma cookie_name_append_eq: "CHR ''='' \<notin> set n \<Longrightarrow> cookie_name (n @ CHR ''='' # v) = n"
  unfolding cookie_name_def first_field_takeWhile
  by (induction n) auto

lemma cookie_name_bare: "CHR ''='' \<notin> set e \<Longrightarrow> cookie_name e = e"
  unfolding cookie_name_def first_field_takeWhile
  by (induction e) auto

lemma cookie_name_split: "CHR ''='' \<in> set e \<Longrightarrow> \<exists>v. e = cookie_name e @ CHR ''='' # v"
  unfolding cookie_name_def first_field_takeWhile
proof (induction e)
  case Nil
  then show ?case by simp
next
  case (Cons a e)
  then show ?case by (cases "a = CHR ''=''") auto
qed

lemma named_iff:
  assumes "CHR ''='' \<notin> set n"
  shows "entry_for n e \<longleftrightarrow> CHR ''='' \<in> set e \<and> cookie_name e = n"
proof
  assume "entry_for n e"
  then obtain t where "e = n @ CHR ''='' # t" by (auto simp: startsWith_append entry_for_def)
  with assms show "CHR ''='' \<in> set e \<and> cookie_name e = n"
    by (simp add: cookie_name_append_eq)
next
  assume h: "CHR ''='' \<in> set e \<and> cookie_name e = n"
  then obtain v where "e = n @ CHR ''='' # v" using cookie_name_split by blast
  then show "entry_for n e" by (simp add: startsWith_append entry_for_def)
qed

lemma named_self: "entry_for (cookie_name p) p \<longleftrightarrow> CHR ''='' \<in> set p"
  using named_iff [OF cookie_name_no_eq, of p p] by simp

lemma merged_eq:
  "merged old c = filter (\<lambda>e. \<not> entry_for (cookie_name (cookie_part c)) e) old @ [cookie_part c]"
  by (simp add: merged_def Let_def)

lemma merged_not_Nil: "merged old c \<noteq> []"
  by (simp add: merged_eq)

subsection \<open>What the operations leave alone\<close>

lemma log_simps [simp]:
  "client (log st ls) = client st"
  "authCookie (log st ls) = authCookie st"
  "wsdlUrl (log st ls) = wsdlUrl st"
  "serviceUrl (log st ls) = serviceUrl st"
  "sessionCookies (log st ls) = sessionCookies st"
  "currentDomain (log st ls) = currentDomain st"
  "console (log st ls) = console st @ ls"
  by (simp_all add: log_def)

lemma domain_cookies_log [simp]: "domain_cookies (log st ls) d = domain_cookies st d"
  by (simp add: domain_cookies_def)

lemma apply_store [simp]: "sessionCookies (applyCookiesForDomain st d) = sessionCookies st"
  by (simp add: applyCookiesForDomain_def Let_def split: option.splits)

lemma apply_currentDomain [simp]: "currentDomain (applyCookiesForDomain st d) = currentDomain st"
  by (simp add: applyCookiesForDomain_def Let_def split: option.splits)

lemma apply_urls [simp]:
  "wsdlUrl (applyCookiesForDomain st d) = wsdlUrl st"
  "serviceUrl (applyCookiesForDomain st d) = serviceUrl st"
  by (simp_all add: applyCookiesForDomain_def Let_def split: option.splits)

lemma forEach_frame:
  "forEach_cookie dc d vs st = (r, st') \<Longrightarrow> st' = st\<lparr>sessionCookies := sessionCookies st'\<rparr>"
proof (induction dc d vs st rule: forEach_cookie.induct)
  case (3 dc d cookie rest st)
  let ?st1 = "st\<lparr>sessionCookies := (sessionCookies st)(d \<mapsto> merged dc cookie)\<rparr>"
  from "3.prems" have "forEach_cookie dc d rest ?st1 = (r, st')" by simp
  from "3.IH" [OF this] have "st' = ?st1\<lparr>sessionCookies := sessionCookies st'\<rparr>" .
  then show ?case by simp
qed simp_all

lemma forEach_store:
  "forEach_cookie dc d vs st = (r, st') \<Longrightarrow>
     sessionCookies st' = sessionCookies st \<or>
     (\<exists>c. JsString c \<in> set vs \<and> sessionCookies st' = (sessionCookies st)(d \<mapsto> merged dc c))"
proof (induction dc d vs st rule: forEach_cookie.induct)
  case (3 dc d cookie rest st)
  let ?st1 = "st\<lparr>sessionCookies := (sessionCookies st)(d \<mapsto> merged dc cookie)\<rparr>"
  from "3.prems" have "forEach_cookie dc d rest ?st1 = (r, st')" by simp
  from "3.IH" [OF this]
  have "sessionCookies st' = sessionCookies ?st1 \<or>
     (\<exists>c. JsString c \<in> set rest \<and> sessionCookies st' = (sessionCookies ?st1)(d \<mapsto> merged dc c))" .
  then show ?case
  proof
    assume "sessionCookies st' = sessionCookies ?st1"
    then have "sessionCookies st' = (sessionCookies st)(d \<mapsto> merged dc cookie)" by simp
    then show ?thesis by force
  next
    assume "\<exists>c. JsString c \<in> set rest \<and> sessionCookies st' = (sessionCookies ?st1)(d \<mapsto> merged dc c)"
    then obtain c where "JsString c \<in> set rest"
      and "sessionCookies st' = (sessionCookies ?st1)(d \<mapsto> merged dc c)" by blast
    then have "JsString c \<in> set (JsString cookie # rest)"
      and "sessionCookies st' = (sessionCookies st)(d \<mapsto> merged dc c)" by simp_all
    then show ?thesis by blast
  qed
qed simp_all

lemma forEach_single:
  "forEach_cookie dc d [JsString c] st =
     (Returned (), st\<lparr>sessionCookies := (sessionCookies st)(d \<mapsto> merged dc c)\<rparr>)"
  by simp

lemma processCookies_single:
  "processCookies st (Single (JsString c)) d =
     (let st1 = st\<lparr>sessionCookies := (sessionCookies st)(d \<mapsto> merged (domain_cookies st d) c)\<rparr>;
          st2 = applyCookiesForDomain st1 d
      in (Returned (),
          log st2 [SessionCookiesUpdated d (js_join ''; '' (merged (domain_cookies st d) c))]))"
  by (simp add: processCookies_def Let_def)

lemma processCookies_store:
  "sessionCookies (snd (processCookies st v d)) = sessionCookies st \<or>
   (\<exists>c. sessionCookies (snd (processCookies st v d)) =
          (sessionCookies st)(d \<mapsto> merged (domain_cookies st d) c))"
proof -
  let ?vs = "cookie_array v"
  obtain r st1 where f: "forEach_cookie (domain_cookies st d) d ?vs st = (r, st1)"
    by (cases "forEach_cookie (domain_cookies st d) d ?vs st") auto
  have "sessionCookies (snd (processCookies st v d)) = sessionCookies st1"
    using f by (cases r) (auto simp: processCookies_def Let_def split: option.splits)
  with forEach_store [OF f] show ?thesis by auto
qed

lemma processCookies_currentDomain [simp]:
  "currentDomain (snd (processCookies st v d)) = currentDomain st"
proof -
  let ?vs = "cookie_array v"
  obtain r st1 where f: "forEach_cookie (domain_cookies st d) d ?vs st = (r, st1)"
    by (cases "forEach_cookie (domain_cookies st d) d ?vs st") auto
  from forEach_frame [OF f] have "currentDomain st1 = currentDomain st"
    by (metis client_state.select_convs(6) client_state.surjective client_state.update_convs(5))
  then show ?thesis
    using f by (cases r) (auto simp: processCookies_def Let_def split: option.splits)
qed

subsection \<open>Merging\<close>

lemma merge_store:
  "sessionCookies (merge st d c) = (sessionCookies st)(d \<mapsto> merged (domain_cookies st d) c)"
  by (simp add: merge_def processCookies_single Let_def)

lemma domain_cookies_merge: "domain_cookies (merge st d c) d = merged (domain_cookies st d) c"
  by (simp add: domain_cookies_def merge_store)

lemma filter_named_merged:
  "CHR ''='' \<in> set (cookie_part c) \<Longrightarrow>
   filter (entry_for (cookie_name (cookie_part c))) (merged old c) = [cookie_part c]"
  by (simp add: merged_eq named_self)

lemma filter_name_merged:
  assumes "cookie_name (cookie_part c) \<notin> set old"
  shows "filter (\<lambda>e. cookie_name e = cookie_name (cookie_part c)) (merged old c) = [cookie_part c]"
proof -
  let ?n = "cookie_name (cookie_part c)"
  have "\<not> (\<not> entry_for ?n e \<and> cookie_name e = ?n)" if "e \<in> set old" for e
  proof
    assume h: "\<not> entry_for ?n e \<and> cookie_name e = ?n"
    then have "CHR ''='' \<notin> set e" using named_iff [OF cookie_name_no_eq, of "cookie_part c" e] by blast
    then have "cookie_name e = e" by (rule cookie_name_bare)
    with h that assms show False by simp
  qed
  then have "filter (\<lambda>e. cookie_name e = ?n) (filter (\<lambda>e. \<not> entry_for ?n e) old) = []"
    by (auto simp: filter_empty_conv)
  then show ?thesis by (simp add: merged_eq)
qed

lemma merged_twice:
  "CHR ''='' \<in> set (cookie_part c) \<Longrightarrow> merged (merged old c) c = merged old c"
  by (simp add: merged_eq named_self)

lemma merged_one_entry:
  assumes "one_entry_per_name old"
  shows "one_entry_per_name (merged old c)"
proof -
  let ?n = "cookie_name (cookie_part c)"
  let ?has = "\<lambda>e. CHR ''='' \<in> set e"
  let ?kept = "filter (\<lambda>e. \<not> entry_for ?n e) (filter ?has old)"
  have k: "filter ?has (filter (\<lambda>e. \<not> entry_for ?n e) old) = ?kept"
    by (induction old) simp_all
  have d: "distinct (map cookie_name ?kept)"
    using assms unfolding one_entry_per_name_def by (rule distinct_map_filter)
  have ne: "cookie_name e \<noteq> ?n" if "e \<in> set ?kept" for e
  proof -
    from that have "CHR ''='' \<in> set e" and "\<not> entry_for ?n e" by simp_all
    then show ?thesis
      using named_iff [OF cookie_name_no_eq, of "cookie_part c" e] by blast
  qed
  have m: "filter ?has (merged old c) = ?kept @ (if ?has (cookie_part c) then [cookie_part c] else [])"
    unfolding merged_eq filter_append k by simp
  show ?thesis
  proof (cases "?has (cookie_part c)")
    case True
    have "?n \<notin> set (map cookie_name ?kept)" using ne by fastforce
    with d have "distinct (map cookie_name (?kept @ [cookie_part c]))" by simp
    with True m show ?thesis unfolding one_entry_per_name_def by simp
  next
    case False
    with d m show ?thesis unfolding one_entry_per_name_def by simp
  qed
qed

subsection \<open>One entry per name, in the words of the filter\<close>

lemma cookie_name_prefix:
  "cookie_name (n @ CHR ''='' # t) = takeWhile (\<lambda>x. x \<noteq> CHR ''='') n"
  unfolding cookie_name_def first_field_takeWhile
  by (induction n) simp_all

lemma entry_for_name:
  "entry_for n e \<Longrightarrow> CHR ''='' \<in> set e \<and> cookie_name e = takeWhile (\<lambda>x. x \<noteq> CHR ''='') n"
proof -
  assume "entry_for n e"
  then obtain t where "e = n @ CHR ''='' # t" by (auto simp: startsWith_append entry_for_def)
  then show ?thesis by (simp add: cookie_name_prefix)
qed

lemma filter_same_key:
  "distinct (map f (filter Q xs)) \<Longrightarrow> \<forall>x \<in> set xs. P x \<longrightarrow> Q x \<and> f x = k \<Longrightarrow>
   length (filter P xs) \<le> 1"
proof (induction xs)
  case Nil
  then show ?case by simp
next
  case (Cons x xs)
  show ?case
  proof (cases "P x")
    case False
    with Cons show ?thesis by (auto split: if_splits)
  next
    case True
    with Cons.prems have q: "Q x" "f x = k" by auto
    have "filter P xs = []"
    proof (rule ccontr)
      assume "filter P xs \<noteq> []"
      then obtain y where y: "y \<in> set xs" "P y" by (auto simp: filter_empty_conv)
      with Cons.prems have "Q y" "f y = k" by auto
      with y have "y \<in> set (filter Q xs)" by simp
      then have "f y \<in> f ` set (filter Q xs)" by (rule imageI)
      with \<open>f y = k\<close> q have "f x \<in> f ` set (filter Q xs)" by simp
      with Cons.prems(1) q show False by simp
    qed
    with True show ?thesis by simp
  qed
qed

lemma one_entry_per_name_iff:
  "one_entry_per_name cs \<longleftrightarrow> (\<forall>n. length (filter (entry_for n) cs) \<le> 1)"
proof
  assume "one_entry_per_name cs"
  then have d: "distinct (map cookie_name (filter (\<lambda>e. CHR ''='' \<in> set e) cs))"
    by (simp add: one_entry_per_name_def)
  show "\<forall>n. length (filter (entry_for n) cs) \<le> 1"
  proof
    fix n
    have "\<forall>e \<in> set cs. entry_for n e \<longrightarrow>
            CHR ''='' \<in> set e \<and> cookie_name e = takeWhile (\<lambda>x. x \<noteq> CHR ''='') n"
      using entry_for_name by blast
    with d show "length (filter (entry_for n) cs) \<le> 1"
      by (rule filter_same_key)
  qed
next
  assume "\<forall>n. length (filter (entry_for n) cs) \<le> 1"
  then show "one_entry_per_name cs"
  proof (induction cs)
    case Nil
    then show ?case by (simp add: one_entry_per_name_def)
  next
    case (Cons x cs)
    have "length (filter (entry_for n) cs) \<le> 1" for n
    proof -
      have "length (filter (entry_for n) cs) \<le> length (filter (entry_for n) (x # cs))" by simp
      also have "\<dots> \<le> 1" using Cons.prems by blast
      finally show ?thesis .
    qed
    then have ih: "one_entry_per_name cs" by (intro Cons.IH allI)
    show ?case
    proof (cases "CHR ''='' \<in> set x")
      case False
      with ih show ?thesis by (simp add: one_entry_per_name_def)
    next
      case True
      let ?n = "cookie_name x"
      have x: "entry_for ?n x"
        using True by (simp add: named_self)
      have "cookie_name y \<noteq> ?n" if "y \<in> set cs" "CHR ''='' \<in> set y" for y
      proof
        assume "cookie_name y = ?n"
        with that have "entry_for ?n y"
          using named_iff [OF cookie_name_no_eq, of x y] by simp
        with that have "y \<in> set (filter (entry_for ?n) cs)" by simp
        then have "length (filter (entry_for ?n) cs) \<ge> 1"
          by (cases "filter (entry_for ?n) cs") simp_all
        with x have "length (filter (entry_for ?n) (x # cs)) \<ge> 2" by simp
        moreover have "length (filter (entry_for ?n) (x # cs)) \<le> 1" using Cons.prems by blast
        ultimately show False by simp
      qed
      then have "?n \<notin> cookie_name ` set (filter (\<lambda>e. CHR ''='' \<in> set e) cs)"
      proof -
        assume r: "\<And>y. y \<in> set cs \<Longrightarrow> CHR ''='' \<in> set y \<Longrightarrow> cookie_name y \<noteq> ?n"
        show ?thesis
        proof
          assume "?n \<in> cookie_name ` set (filter (\<lambda>e. CHR ''='' \<in> set e) cs)"
          then obtain y where "y \<in> set cs" "CHR ''='' \<in> set y" "cookie_name y = ?n" by auto
          with r show False by blast
        qed
      qed
      moreover from ih have "distinct (map cookie_name (filter (\<lambda>e. CHR ''='' \<in> set e) cs))"
        by (simp add: one_entry_per_name_def)
      ultimately show ?thesis using True by (simp add: one_entry_per_name_def)
    qed
  qed
qed

section \<open>Properties of the cookie store\<close>

text \<open>
  One cookie: \<^verbatim>\<open>processCookies\<close> keeps of it what stands before the first \<^verbatim>\<open>;\<close>, takes as
  name what stands before the first \<^verbatim>\<open>=\<close> of that, removes every entry that begins with the
  name and \<^verbatim>\<open>=\<close>, and appends the kept part at the end.
\<close>

lemma processCookies_one_cookie:
  "cookie_part c = takeWhile (\<lambda>x. x \<noteq> CHR '';'') c \<and>
   cookie_name (cookie_part c) = takeWhile (\<lambda>x. x \<noteq> CHR ''='') (cookie_part c) \<and>
   fst (processCookies st (Single (JsString c)) d) = Returned () \<and>
   sessionCookies (snd (processCookies st (Single (JsString c)) d)) =
     (sessionCookies st)
       (d \<mapsto> filter (\<lambda>e. \<not> entry_for (cookie_name (cookie_part c)) e) (domain_cookies st d) @
              [cookie_part c]) \<and>
   (CHR ''='' \<in> set (cookie_part c) \<longrightarrow>
      filter (entry_for (cookie_name (cookie_part c)))
        (domain_cookies (snd (processCookies st (Single (JsString c)) d)) d) = [cookie_part c]) \<and>
   (cookie_name (cookie_part c) \<notin> set (domain_cookies st d) \<longrightarrow>
      filter (\<lambda>e. cookie_name e = cookie_name (cookie_part c))
        (domain_cookies (snd (processCookies st (Single (JsString c)) d)) d) = [cookie_part c])"
proof -
  have dc: "domain_cookies (snd (processCookies st (Single (JsString c)) d)) d =
            merged (domain_cookies st d) c"
    using domain_cookies_merge [of st d c] by (simp add: merge_def)
  have "cookie_part c = takeWhile (\<lambda>x. x \<noteq> CHR '';'') c"
    by (simp add: cookie_part_def first_field_takeWhile)
  moreover have "cookie_name (cookie_part c) = takeWhile (\<lambda>x. x \<noteq> CHR ''='') (cookie_part c)"
    by (simp add: cookie_name_def first_field_takeWhile)
  moreover have "fst (processCookies st (Single (JsString c)) d) = Returned ()"
    by (simp add: processCookies_single Let_def)
  moreover have "sessionCookies (snd (processCookies st (Single (JsString c)) d)) =
     (sessionCookies st)
       (d \<mapsto> filter (\<lambda>e. \<not> entry_for (cookie_name (cookie_part c)) e) (domain_cookies st d) @
              [cookie_part c])"
    using merge_store [of st d c] by (simp add: merge_def merged_eq)
  ultimately show ?thesis
    using filter_named_merged [of c "domain_cookies st d"]
          filter_name_merged [of c "domain_cookies st d"]
    by (simp add: dc)
qed

text \<open>
  The test of the filter misses an entry without \<^verbatim>\<open>=\<close>, against the comment of the code,
  "Remove existing cookie with same name": merged twice, \<^verbatim>\<open>foo\<close> is stored twice.
\<close>

lemma processCookies_bare_cookie_twice:
  "domain_cookies
     (snd (processCookies
        (snd (processCookies new_client (Single (JsString ''foo'')) ''a.example.com''))
        (Single (JsString ''foo'')) ''a.example.com''))
     ''a.example.com'' = [''foo'', ''foo''] \<and>
   cookie_name (cookie_part ''foo'') = ''foo'' \<and>
   length (filter (\<lambda>e. cookie_name e = ''foo'') [''foo'', ''foo'']) = 2 \<and>
   length (filter (entry_for ''foo'') [''foo'', ''foo'']) = 0"
  by code_simp

lemma forEach_strings:
  "forEach_cookie dc d (map JsString cs) st =
     (Returned (),
      if cs = [] then st
      else st\<lparr>sessionCookies := (sessionCookies st)(d \<mapsto> merged dc (last cs))\<rparr>)"
proof (induction cs arbitrary: st)
  case Nil
  then show ?case by simp
next
  case (Cons c cs)
  then show ?case by (cases cs) simp_all
qed

text \<open>
  C1.  The claim has every merged cookie end as the one entry of its name.  The code does
  not do so for an array of several cookies, what a response with several
  \<^verbatim>\<open>Set-Cookie\<close> headers gives: every round of the loop filters the array read before the
  loop and writes the result over the collection of the domain, so the collection ends as
  the old one with the last cookie merged into it, and the cookies before the last are lost.
\<close>

theorem processCookies_array_keeps_last:
  assumes "cs \<noteq> []"
  shows "sessionCookies (snd (processCookies st (Many (map JsString cs)) d)) =
           (sessionCookies st)(d \<mapsto> merged (domain_cookies st d) (last cs))"
  using assms by (simp add: processCookies_def Let_def forEach_strings)

theorem processCookies_array_keeps_last_witness:
  "[''JSESSIONID=ABC123; Path=/'', ''AuthToken=XYZ789''] \<noteq> [] \<and>
   sessionCookies
     (snd (processCookies new_client
             (Many (map JsString [''JSESSIONID=ABC123; Path=/'', ''AuthToken=XYZ789'']))
             ''example.com''))
     ''example.com'' = Some [''AuthToken=XYZ789''] \<and>
   sessionCookies
     (merge (merge new_client ''example.com'' ''JSESSIONID=ABC123; Path=/'')
        ''example.com'' ''AuthToken=XYZ789'')
     ''example.com'' = Some [''JSESSIONID=ABC123'', ''AuthToken=XYZ789'']"
proof -
  have h: "[''JSESSIONID=ABC123; Path=/'', ''AuthToken=XYZ789''] \<noteq> []" by simp
  have l: "last [''JSESSIONID=ABC123; Path=/'', ''AuthToken=XYZ789''] = ''AuthToken=XYZ789''"
    by simp
  have m: "merged (domain_cookies new_client ''example.com'') ''AuthToken=XYZ789'' =
           [''AuthToken=XYZ789'']" by code_simp
  have s: "sessionCookies
     (merge (merge new_client ''example.com'' ''JSESSIONID=ABC123; Path=/'')
        ''example.com'' ''AuthToken=XYZ789'')
     ''example.com'' = Some [''JSESSIONID=ABC123'', ''AuthToken=XYZ789'']" by code_simp
  from processCookies_array_keeps_last [OF h, of new_client "''example.com''"]
  have "sessionCookies
     (snd (processCookies new_client
             (Many (map JsString [''JSESSIONID=ABC123; Path=/'', ''AuthToken=XYZ789'']))
             ''example.com''))
     ''example.com'' = Some (merged (domain_cookies new_client ''example.com'')
        (last [''JSESSIONID=ABC123; Path=/'', ''AuthToken=XYZ789'']))"
    by simp
  then have "sessionCookies
     (snd (processCookies new_client
             (Many (map JsString [''JSESSIONID=ABC123; Path=/'', ''AuthToken=XYZ789'']))
             ''example.com''))
     ''example.com'' = Some [''AuthToken=XYZ789'']"
    by (simp only: l m)
  with h s show ?thesis by blast
qed

text \<open>
  C9.  For every domain and every cookie of the form name=value, merging it twice leaves the
  collection as the first merge left it: exactly one entry for that name, with that value,
  at the end.  The position is not kept: with a cookie of another name merged in between,
  the second merge moves the entry behind that one.
\<close>

theorem merge_twice:
  assumes "CHR ''='' \<in> set (cookie_part c)"
  shows "sessionCookies (merge (merge st d c) d c) = sessionCookies (merge st d c) \<and>
         filter (entry_for (cookie_name (cookie_part c))) (domain_cookies (merge (merge st d c) d c) d) =
           [cookie_part c] \<and>
         last (domain_cookies (merge (merge st d c) d c) d) = cookie_part c \<and>
         (CHR ''='' \<in> set (cookie_part c') \<and> cookie_name (cookie_part c') \<noteq> cookie_name (cookie_part c) \<longrightarrow>
            domain_cookies (merge (merge st d c) d c') d =
              filter (\<lambda>e. \<not> entry_for (cookie_name (cookie_part c)) e \<and>
                           \<not> entry_for (cookie_name (cookie_part c')) e) (domain_cookies st d) @
              [cookie_part c, cookie_part c'] \<and>
            domain_cookies (merge (merge (merge st d c) d c') d c) d =
              filter (\<lambda>e. \<not> entry_for (cookie_name (cookie_part c)) e \<and>
                           \<not> entry_for (cookie_name (cookie_part c')) e) (domain_cookies st d) @
              [cookie_part c', cookie_part c])"
proof -
  let ?n = "cookie_name (cookie_part c)" and ?n' = "cookie_name (cookie_part c')"
  have once: "domain_cookies (merge st d c) d = merged (domain_cookies st d) c"
    by (rule domain_cookies_merge)
  have twice: "domain_cookies (merge (merge st d c) d c) d = merged (domain_cookies st d) c"
    using assms by (simp add: domain_cookies_merge merged_twice)
  have f1: "sessionCookies (merge (merge st d c) d c) = sessionCookies (merge st d c)"
    using assms by (simp add: merge_store domain_cookies_merge merged_twice)
  have f2: "filter (entry_for ?n) (domain_cookies (merge (merge st d c) d c) d) = [cookie_part c]"
    using assms by (simp add: twice filter_named_merged)
  have f3: "last (domain_cookies (merge (merge st d c) d c) d) = cookie_part c"
    by (simp add: twice merged_eq)
  have f4: "domain_cookies (merge (merge st d c) d c') d =
              filter (\<lambda>e. \<not> entry_for ?n e \<and> \<not> entry_for ?n' e) (domain_cookies st d) @
              [cookie_part c, cookie_part c'] \<and>
            domain_cookies (merge (merge (merge st d c) d c') d c) d =
              filter (\<lambda>e. \<not> entry_for ?n e \<and> \<not> entry_for ?n' e) (domain_cookies st d) @
              [cookie_part c', cookie_part c]"
    if h: "CHR ''='' \<in> set (cookie_part c')" "?n' \<noteq> ?n"
  proof -
    have a: "\<not> entry_for ?n' (cookie_part c)"
      using h named_iff [OF cookie_name_no_eq, of "cookie_part c'" "cookie_part c"] by auto
    have b: "\<not> entry_for ?n (cookie_part c')"
      using h named_iff [OF cookie_name_no_eq, of "cookie_part c" "cookie_part c'"] by auto
    have c: "entry_for ?n (cookie_part c)" using assms by (simp add: named_self)
    show ?thesis
      using a b c by (simp add: domain_cookies_merge merged_eq conj_commute)
  qed
  show ?thesis
    by (intro conjI impI f1 f2 f3 f4) simp_all
qed

theorem merge_twice_witness:
  "CHR ''='' \<in> set (cookie_part ''b=9; Path=/'') \<and>
   CHR ''='' \<in> set (cookie_part ''lang=en'') \<and>
   cookie_name (cookie_part ''lang=en'') \<noteq> cookie_name (cookie_part ''b=9; Path=/'') \<and>
   sessionCookies (merge (merge example_session ''a.example.com'' ''b=9; Path=/'')
                         ''a.example.com'' ''b=9; Path=/'') =
     sessionCookies (merge example_session ''a.example.com'' ''b=9; Path=/'') \<and>
   filter (entry_for ''b'')
     (domain_cookies (merge (merge example_session ''a.example.com'' ''b=9; Path=/'')
                            ''a.example.com'' ''b=9; Path=/'') ''a.example.com'') = [''b=9''] \<and>
   domain_cookies (merge (merge example_session ''a.example.com'' ''b=9; Path=/'')
                         ''a.example.com'' ''lang=en'') ''a.example.com'' =
     [''a=1'', ''c=3'', ''b=9'', ''lang=en''] \<and>
   domain_cookies (merge (merge (merge example_session ''a.example.com'' ''b=9; Path=/'')
                                ''a.example.com'' ''lang=en'')
                         ''a.example.com'' ''b=9; Path=/'') ''a.example.com'' =
     [''a=1'', ''c=3'', ''lang=en'', ''b=9'']"
proof -
  have p: "cookie_part ''b=9; Path=/'' = ''b=9''" "cookie_part ''lang=en'' = ''lang=en''"
    by code_simp+
  have n: "cookie_name ''b=9'' = ''b''" "cookie_name ''lang=en'' = ''lang''" by code_simp+
  have h1: "CHR ''='' \<in> set (cookie_part ''b=9; Path=/'')" by code_simp
  have h2: "CHR ''='' \<in> set (cookie_part ''lang=en'')" by code_simp
  have h3: "cookie_name (cookie_part ''lang=en'') \<noteq> cookie_name (cookie_part ''b=9; Path=/'')"
    by code_simp
  have old: "filter (\<lambda>e. \<not> entry_for ''b'' e \<and> \<not> entry_for ''lang'' e)
               (domain_cookies example_session ''a.example.com'') = [''a=1'', ''c=3'']"
    by code_simp
  from merge_twice [OF h1, of example_session "''a.example.com''" "''lang=en''"] h1 h2 h3
  show ?thesis by (simp add: p n old)
qed

section \<open>Extraction, case by case\<close>

definition finish :: "bool outcome \<times> client_state \<Rightarrow> unit outcome \<times> client_state" where
  "finish r = (case r of (Threw e, s) \<Rightarrow> (Threw e, s) | (Returned b, s) \<Rightarrow> (Returned (), s))"

lemma found_cases:
  "(\<exists>e s. found st line v d = (Threw e, s)) \<or> (\<exists>s. found st line v d = (Returned True, s))"
  by (auto simp: found_def split: prod.splits outcome.splits)

lemma extract_body_found1:
  "client_set_cookie st = Some v \<Longrightarrow>
   extract_body st result d = finish (found st FoundInClientHeaders v d)"
  using found_cases [of st FoundInClientHeaders v d]
  by (auto simp: extract_body_def from_client_headers_def from_raw_headers_def
      from_raw_text_def finish_def)

lemma extract_body_null:
  "client_set_cookie st = None \<Longrightarrow> extract_body st None d = (Threw TypeError, st)"
  by (simp add: extract_body_def from_client_headers_def from_raw_headers_def)

lemma extract_body_found2:
  "client_set_cookie st = None \<Longrightarrow> raw_set_cookie r = Some v \<Longrightarrow>
   extract_body st (Some r) d = finish (found st FoundInRawHeaders v d)"
  using found_cases [of st FoundInRawHeaders v d]
  by (auto simp: extract_body_def from_client_headers_def from_raw_headers_def
      from_raw_text_def finish_def)

lemma extract_body_found3:
  "client_set_cookie st = None \<Longrightarrow> raw_set_cookie r = None \<Longrightarrow> text_set_cookie r = Some v \<Longrightarrow>
   extract_body st (Some r) d = finish (found st FoundInRawText v d)"
  using found_cases [of st FoundInRawText v d]
  by (auto simp: extract_body_def from_client_headers_def from_raw_headers_def
      from_raw_text_def finish_def)

lemma extract_body_nothing:
  "client_set_cookie st = None \<Longrightarrow> raw_set_cookie r = None \<Longrightarrow> text_set_cookie r = None \<Longrightarrow>
   extract_body st (Some r) d = (Returned (), log st [NoCookiesFound])"
  by (simp add: extract_body_def from_client_headers_def from_raw_headers_def from_raw_text_def)

text \<open>One step of the store: nothing, or one collection replaced by a merge into it.\<close>

definition store_step :: "client_state \<Rightarrow> client_state \<Rightarrow> bool" where
  "store_step st st' \<longleftrightarrow>
     sessionCookies st' = sessionCookies st \<or>
     (\<exists>d c. sessionCookies st' = (sessionCookies st)(d \<mapsto> merged (domain_cookies st d) c))"

lemma store_step_refl: "sessionCookies st' = sessionCookies st \<Longrightarrow> store_step st st'"
  by (simp add: store_step_def)

lemma processCookies_step: "store_step st (snd (processCookies st v d))"
  using processCookies_store [of st v d] by (auto simp: store_step_def)

lemma found_step: "store_step st (snd (found st line v d))"
proof -
  have "snd (found st line v d) = snd (processCookies (log st [line]) v d)"
    by (simp add: found_def split: prod.splits outcome.splits)
  with processCookies_step [of "log st [line]" v d] show ?thesis
    by (simp add: store_step_def)
qed

lemma finish_snd [simp]: "snd (finish r) = snd r"
  by (simp add: finish_def split: prod.splits outcome.splits)

lemma extract_body_step: "store_step st (snd (extract_body st result d))"
proof (cases "client_set_cookie st")
  case (Some v)
  then show ?thesis by (simp add: extract_body_found1 found_step)
next
  case None
  note c = this
  show ?thesis
  proof (cases result)
    case None
    with c show ?thesis by (simp add: extract_body_null store_step_refl)
  next
    case (Some r)
    show ?thesis
    proof (cases "raw_set_cookie r")
      case (Some v)
      with c \<open>result = Some r\<close> show ?thesis by (simp add: extract_body_found2 found_step)
    next
      case None
      note h = this
      show ?thesis
      proof (cases "text_set_cookie r")
        case None
        with c h \<open>result = Some r\<close> show ?thesis
          by (simp add: extract_body_nothing store_step_refl)
      next
        case (Some v)
        with c h \<open>result = Some r\<close> show ?thesis by (simp add: extract_body_found3 found_step)
      qed
    qed
  qed
qed

lemma extract_store:
  "sessionCookies (snd (extractCookiesFromMultipleSources st result)) = sessionCookies st \<or>
   (\<exists>d. currentDomain st = Some d \<and> truthy d \<and>
        sessionCookies (snd (extractCookiesFromMultipleSources st result)) =
        sessionCookies (snd (extract_body st result d)))"
proof (cases "currentDomain st")
  case None
  then show ?thesis by (simp add: extractCookiesFromMultipleSources_def)
next
  case (Some d)
  show ?thesis
  proof (cases "truthy d")
    case False
    with Some show ?thesis by (simp add: extractCookiesFromMultipleSources_def)
  next
    case True
    obtain r s where b: "extract_body st result d = (r, s)"
      by (cases "extract_body st result d") auto
    have "sessionCookies (snd (extractCookiesFromMultipleSources st result)) = sessionCookies s"
      using Some True b by (cases r) (simp_all add: extractCookiesFromMultipleSources_def)
    with Some True b show ?thesis by simp
  qed
qed

lemma extract_step: "store_step st (snd (extractCookiesFromMultipleSources st result))"
proof -
  from extract_store [of st result] show ?thesis
  proof
    assume "sessionCookies (snd (extractCookiesFromMultipleSources st result)) = sessionCookies st"
    then show ?thesis by (rule store_step_refl)
  next
    assume "\<exists>d. currentDomain st = Some d \<and> truthy d \<and>
        sessionCookies (snd (extractCookiesFromMultipleSources st result)) =
        sessionCookies (snd (extract_body st result d))"
    then obtain d where "sessionCookies (snd (extractCookiesFromMultipleSources st result)) =
        sessionCookies (snd (extract_body st result d))" by blast
    with extract_body_step [of st result d] show ?thesis by (simp add: store_step_def)
  qed
qed

lemma executeMethod_step: "store_step st (snd (executeMethod st invoke m p))"
proof (cases "client st")
  case None
  then show ?thesis by (simp add: executeMethod_def store_step_refl)
next
  case (Some c)
  show ?thesis
  proof (cases "invoke c m p")
    case (RpcFailure e h)
    with Some show ?thesis by (simp add: executeMethod_def store_step_refl)
  next
    case (RpcSuccess r h)
    let ?st1 = "st\<lparr>client := Some (c\<lparr>lastResponseHeaders := h\<rparr>)\<rparr>"
    have "sessionCookies (snd (executeMethod st invoke m p)) =
          sessionCookies (snd (extractCookiesFromMultipleSources ?st1 (Some r)))"
      using Some RpcSuccess by (simp add: executeMethod_def split: prod.splits outcome.splits)
    with extract_step [of ?st1 "Some r"] show ?thesis
      by (simp add: store_step_def domain_cookies_def)
  qed
qed

lemma connect_store [simp]:
  "sessionCookies (snd (connect st hostname createClient url hdrs)) = sessionCookies st"
  by (simp add: connect_def connect_failed_def Let_def
      split: option.splits construction.splits service_location.splits)

lemma clear_store:
  "sessionCookies (clearSessionCookies st t) = sessionCookies st \<or>
   (\<exists>d. sessionCookies (clearSessionCookies st t) = (sessionCookies st)(d := None))"
  by (auto simp: clearSessionCookies_def Let_def split: option.splits)

lemma add_store:
  "sessionCookies (snd (addCookiesForDomain st d s)) =
     (if truthy d \<and> truthy s then (sessionCookies st)(d \<mapsto> map trim (split_on CHR '';'' s))
      else sessionCookies st)"
  by (simp add: addCookiesForDomain_def Let_def)

lemma store_step_nonempty:
  "store_step st st' \<Longrightarrow> \<forall>d. sessionCookies st d \<noteq> Some [] \<Longrightarrow> sessionCookies st' d \<noteq> Some []"
  by (auto simp: store_step_def merged_not_Nil split: if_splits)

lemma reachable_nonempty: "reachable st \<Longrightarrow> sessionCookies st d \<noteq> Some []"
proof (induction arbitrary: d rule: reachable.induct)
  case reach_new
  then show ?case by (simp add: new_client_def)
next
  case (reach_connect st hostname createClient url wsdl_headers)
  then show ?case by simp
next
  case (reach_executeMethod st invoke methodName parameters)
  then show ?case using store_step_nonempty [OF executeMethod_step] by blast
next
  case (reach_extract st result)
  then show ?case using store_step_nonempty [OF extract_step] by blast
next
  case (reach_processCookies st cookies domain)
  then show ?case using store_step_nonempty [OF processCookies_step] by blast
next
  case (reach_apply st domain)
  then show ?case by simp
next
  case (reach_clear st target)
  then show ?case using clear_store [of st target] by (auto split: if_splits)
next
  case (reach_add st domain cookieString)
  then show ?case by (simp add: add_store split_on_not_Nil)
next
  case (reach_other st c a s w)
  then show ?case by simp
qed

section \<open>Properties of the store in use\<close>

lemma processCookies_domain_cookies:
  "domain_cookies (snd (processCookies st v d)) d' = domain_cookies st d' \<or>
   (d' = d \<and> (\<exists>c. domain_cookies (snd (processCookies st v d)) d' = merged (domain_cookies st d) c))"
proof -
  from processCookies_store [of st v d] show ?thesis
  proof
    assume "sessionCookies (snd (processCookies st v d)) = sessionCookies st"
    then show ?thesis by (simp add: domain_cookies_def)
  next
    assume "\<exists>c. sessionCookies (snd (processCookies st v d)) =
          (sessionCookies st)(d \<mapsto> merged (domain_cookies st d) c)"
    then obtain c where "sessionCookies (snd (processCookies st v d)) =
          (sessionCookies st)(d \<mapsto> merged (domain_cookies st d) c)" by blast
    then show ?thesis by (cases "d' = d") (auto simp: domain_cookies_def)
  qed
qed

lemma clear_one_entry:
  "one_entry_per_name (domain_cookies st d') \<Longrightarrow>
   one_entry_per_name (domain_cookies (clearSessionCookies st t) d')"
  using clear_store [of st t]
  by (auto simp: domain_cookies_def one_entry_per_name_def split: if_splits)

lemma add_domain_cookies:
  "truthy d \<Longrightarrow> truthy s \<Longrightarrow>
   domain_cookies (snd (addCookiesForDomain st d s)) d = map trim (split_on CHR '';'' s)"
  by (simp add: domain_cookies_def add_store)

lemma add_one_entry:
  "one_entry_per_name (domain_cookies st d') \<Longrightarrow>
   one_entry_per_name (map trim (split_on CHR '';'' s)) \<Longrightarrow>
   one_entry_per_name (domain_cookies (snd (addCookiesForDomain st d s)) d')"
  by (simp add: domain_cookies_def add_store)

text \<open>
  C2 (as amended).  For every domain, a collection with at most one entry per name keeps
  that property under \<^verbatim>\<open>processCookies\<close>, whatever is merged into whichever domain, and
  under \<^verbatim>\<open>clearSessionCookies\<close>.  \<^verbatim>\<open>addCookiesForDomain\<close> stores the trimmed segments of
  the caller's string as they are, so it keeps the property when those segments have it.
\<close>

theorem one_entry_per_name_preserved:
  assumes "one_entry_per_name (domain_cookies st d')"
  shows "one_entry_per_name (domain_cookies (snd (processCookies st cookies d)) d') \<and>
         one_entry_per_name (domain_cookies (clearSessionCookies st target) d') \<and>
         (one_entry_per_name (map trim (split_on CHR '';'' cookieString)) \<longrightarrow>
            one_entry_per_name (domain_cookies (snd (addCookiesForDomain st d cookieString)) d')) \<and>
         (truthy d \<and> truthy cookieString \<longrightarrow>
            domain_cookies (snd (addCookiesForDomain st d cookieString)) d =
              map trim (split_on CHR '';'' cookieString))"
proof -
  have "one_entry_per_name (domain_cookies (snd (processCookies st cookies d)) d')"
    using processCookies_domain_cookies [of st cookies d d'] assms merged_one_entry by auto
  then show ?thesis
    using assms by (simp add: clear_one_entry add_one_entry add_domain_cookies)
qed

theorem one_entry_per_name_preserved_witness:
  "one_entry_per_name (domain_cookies example_session ''a.example.com'') \<and>
   one_entry_per_name (map trim (split_on CHR '';'' ''X=1; Y=2'')) \<and>
   truthy ''a.example.com'' \<and> truthy ''X=1; Y=2'' \<and>
   one_entry_per_name
     (domain_cookies
        (snd (processCookies example_session
                (Many [JsString ''b=9; Path=/'', JsString ''a=7'']) ''a.example.com''))
        ''a.example.com'') \<and>
   one_entry_per_name
     (domain_cookies (clearSessionCookies example_session None) ''a.example.com'') \<and>
   one_entry_per_name
     (domain_cookies (snd (addCookiesForDomain example_session ''a.example.com'' ''X=1; Y=2''))
        ''a.example.com'') \<and>
   domain_cookies (snd (addCookiesForDomain example_session ''a.example.com'' ''X=1; Y=2''))
     ''a.example.com'' = [''X=1'', ''Y=2'']"
proof -
  have h1: "one_entry_per_name (domain_cookies example_session ''a.example.com'')" by code_simp
  have h2: "one_entry_per_name (map trim (split_on CHR '';'' ''X=1; Y=2''))" by code_simp
  have h3: "truthy ''a.example.com''" "truthy ''X=1; Y=2''" by code_simp+
  have v: "map trim (split_on CHR '';'' ''X=1; Y=2'') = [''X=1'', ''Y=2'']" by code_simp
  note t = one_entry_per_name_preserved [OF h1,
      of "Many [JsString ''b=9; Path=/'', JsString ''a=7'']" "''a.example.com''" None "''X=1; Y=2''"]
  from t h2 h3 have
    "domain_cookies (snd (addCookiesForDomain example_session ''a.example.com'' ''X=1; Y=2''))
       ''a.example.com'' = map trim (split_on CHR '';'' ''X=1; Y=2'')" by blast
  then have e: "domain_cookies (snd (addCookiesForDomain example_session ''a.example.com'' ''X=1; Y=2''))
       ''a.example.com'' = [''X=1'', ''Y=2'']" by (simp only: v)
  from t h1 h2 h3 e show ?thesis by blast
qed

text \<open>
  C2 as stated fails for the manual injection: two segments of one name are both
  stored.
\<close>

theorem addCookiesForDomain_duplicates_counterexample:
  "one_entry_per_name (domain_cookies new_client ''c.example.net'') \<and>
   domain_cookies (snd (addCookiesForDomain new_client ''c.example.net'' ''X=1; X=2''))
     ''c.example.net'' = [''X=1'', ''X=2''] \<and>
   \<not> one_entry_per_name
        (domain_cookies (snd (addCookiesForDomain new_client ''c.example.net'' ''X=1; X=2''))
           ''c.example.net'')"
  by code_simp

text \<open>
  C7.  For a domain with no stored cookies, absent or empty, \<^verbatim>\<open>applyCookiesForDomain\<close>
  writes a line on the console and nothing else: the connection and its \<^verbatim>\<open>Cookie\<close> header
  stay as they are.  With a connection, a domain and stored cookies the header becomes
  the rendered collection, and the connection changes in no other case.
\<close>

theorem applyCookiesForDomain_without_cookies:
  "((sessionCookies st d = None \<or> sessionCookies st d = Some []) \<longrightarrow>
      applyCookiesForDomain st d = st\<lparr>console := console (applyCookiesForDomain st d)\<rparr>) \<and>
   (client st = Some c \<and> truthy d \<and> sessionCookies st d = Some cs \<and> cs \<noteq> [] \<longrightarrow>
      client (applyCookiesForDomain st d) =
        Some (c\<lparr>httpHeaders := (httpHeaders c)(''Cookie'' \<mapsto> js_join ''; '' cs)\<rparr>)) \<and>
   (client (applyCookiesForDomain st d) \<noteq> client st \<longrightarrow>
      (\<exists>cs. sessionCookies st d = Some cs \<and> cs \<noteq> []))"
proof (intro conjI impI)
  assume "sessionCookies st d = None \<or> sessionCookies st d = Some []"
  then show "applyCookiesForDomain st d = st\<lparr>console := console (applyCookiesForDomain st d)\<rparr>"
    by (auto simp: applyCookiesForDomain_def log_def split: option.splits)
next
  assume "client st = Some c \<and> truthy d \<and> sessionCookies st d = Some cs \<and> cs \<noteq> []"
  then show "client (applyCookiesForDomain st d) =
        Some (c\<lparr>httpHeaders := (httpHeaders c)(''Cookie'' \<mapsto> js_join ''; '' cs)\<rparr>)"
    by (auto simp: applyCookiesForDomain_def addHttpHeader_def Let_def split: option.splits)
next
  assume "client (applyCookiesForDomain st d) \<noteq> client st"
  then show "\<exists>cs. sessionCookies st d = Some cs \<and> cs \<noteq> []"
    by (auto simp: applyCookiesForDomain_def Let_def split: option.splits if_splits)
qed

theorem applyCookiesForDomain_without_cookies_witness:
  "sessionCookies example_authenticated ''a.example.com'' = None \<and>
   client (applyCookiesForDomain example_authenticated ''a.example.com'') =
     client example_authenticated \<and>
   console (applyCookiesForDomain example_authenticated ''a.example.com'') =
     [NoExistingCookies ''a.example.com''] \<and>
   truthy ''a.example.com'' \<and>
   sessionCookies example_session ''a.example.com'' = Some [''a=1'', ''b=2'', ''c=3''] \<and>
   client (applyCookiesForDomain example_session ''a.example.com'') =
     Some \<lparr>httpHeaders = [''Cookie'' \<mapsto> ''a=1; b=2; c=3''], lastResponseHeaders = None\<rparr>"
proof -
  have h1: "sessionCookies example_authenticated ''a.example.com'' = None"
    by (simp add: example_authenticated_def)
  have h2: "client example_session =
            Some \<lparr>httpHeaders = Map.empty, lastResponseHeaders = None\<rparr>"
    "truthy ''a.example.com''"
    "sessionCookies example_session ''a.example.com'' = Some [''a=1'', ''b=2'', ''c=3'']"
    by (simp_all add: example_session_def truthy_def)
  have js: "js_join ''; '' [''a=1'', ''b=2'', ''c=3''] = ''a=1; b=2; c=3''" by simp
  have l: "console (applyCookiesForDomain example_authenticated ''a.example.com'') =
     [NoExistingCookies ''a.example.com'']"
    by (simp add: applyCookiesForDomain_def example_authenticated_def truthy_def)
  have "applyCookiesForDomain example_authenticated ''a.example.com'' =
     example_authenticated
       \<lparr>console := console (applyCookiesForDomain example_authenticated ''a.example.com'')\<rparr>"
    using applyCookiesForDomain_without_cookies
      [of example_authenticated "''a.example.com''" undefined undefined] h1
    by blast
  from arg_cong [OF this, of client]
  have a: "client (applyCookiesForDomain example_authenticated ''a.example.com'') =
     client example_authenticated" by simp
  have b: "client (applyCookiesForDomain example_session ''a.example.com'') =
     Some \<lparr>httpHeaders = [''Cookie'' \<mapsto> ''a=1; b=2; c=3''], lastResponseHeaders = None\<rparr>"
    using applyCookiesForDomain_without_cookies
      [of example_session "''a.example.com''"
          "\<lparr>httpHeaders = Map.empty, lastResponseHeaders = None\<rparr>" "[''a=1'', ''b=2'', ''c=3'']"] h2
    by (simp add: js)
  from h1 h2 l a b show ?thesis by blast
qed

lemma js_join_Cons: "js_join sep (c # cs) = c @ concat (map (\<lambda>e. sep @ e) cs)"
  by (induction sep cs arbitrary: c rule: js_join.induct) simp_all

lemma js_join_Nil_iff: "js_join sep cs = [] \<longleftrightarrow> cs = [] \<or> cs = [[]] \<or> (sep = [] \<and> set cs = {[]})"
  by (induction sep cs rule: js_join.induct) auto

lemma js_join_semicolon_Nil_iff: "js_join ''; '' cs = [] \<longleftrightarrow> cs = [] \<or> cs = [[]]"
  by (simp add: js_join_Nil_iff)

lemma example_connected_reachable: "reachable example_connected"
  unfolding example_connected_def by (rule reach_connect, rule reach_new)

lemma example_injected_reachable: "reachable example_injected"
  unfolding example_injected_def by (rule reach_add, rule example_connected_reachable)

lemma example_blank_reachable: "reachable example_blank"
  unfolding example_blank_def by (rule reach_add, rule example_connected_reachable)

lemma example_nameless_reachable:
  "reachable (snd (executeMethod example_connected example_nameless ''Login'' ''{}''))"
  by (rule reach_executeMethod, rule example_connected_reachable)

text \<open>
  C8 (as amended).  \<^verbatim>\<open>getSessionCookies\<close> gives null exactly when there is no current
  domain or no collection stored for it.  For a stored collection it gives the entries in
  their order with \<^verbatim>\<open>; \<close> between them: a string, which is empty exactly when the
  collection is empty, as in no reachable state, or holds the empty entry alone.
\<close>

theorem getSessionCookies_render:
  "(getSessionCookies st = None \<longleftrightarrow>
      currentDomain st = None \<or> currentDomain st = Some [] \<or>
      (\<exists>d. currentDomain st = Some d \<and> sessionCookies st d = None)) \<and>
   (currentDomain st = Some d \<and> truthy d \<and> sessionCookies st d = Some cs \<longrightarrow>
      getSessionCookies st = Some (js_join ''; '' cs) \<and>
      (js_join ''; '' cs = [] \<longleftrightarrow> cs = [] \<or> cs = [[]]) \<and>
      (reachable st \<longrightarrow> cs \<noteq> [])) \<and>
   js_join ''; '' (c # cs') = c @ concat (map (\<lambda>e. ''; '' @ e) cs')"
proof (intro conjI impI)
  show "getSessionCookies st = None \<longleftrightarrow>
      currentDomain st = None \<or> currentDomain st = Some [] \<or>
      (\<exists>d. currentDomain st = Some d \<and> sessionCookies st d = None)"
    by (auto simp: getSessionCookies_def truthy_def split: option.splits)
next
  assume h: "currentDomain st = Some d \<and> truthy d \<and> sessionCookies st d = Some cs"
  then show "getSessionCookies st = Some (js_join ''; '' cs)"
    by (simp add: getSessionCookies_def)
  show "js_join ''; '' cs = [] \<longleftrightarrow> cs = [] \<or> cs = [[]]"
    by (rule js_join_semicolon_Nil_iff)
  assume "reachable st"
  with h reachable_nonempty [of st d] show "cs \<noteq> []" by auto
next
  show "js_join ''; '' (c # cs') = c @ concat (map (\<lambda>e. ''; '' @ e) cs')"
    by (rule js_join_Cons)
qed

theorem getSessionCookies_render_witness:
  "currentDomain example_injected = Some ''a.example.com'' \<and> truthy ''a.example.com'' \<and>
   sessionCookies example_injected ''a.example.com'' = Some [''X=1'', ''Y=2'', ''Z=3''] \<and>
   reachable example_injected \<and>
   getSessionCookies example_injected = Some ''X=1; Y=2; Z=3'' \<and>
   currentDomain new_client = None \<and> getSessionCookies new_client = None \<and>
   currentDomain (clearSessionCookies example_injected None) = Some ''a.example.com'' \<and>
   sessionCookies (clearSessionCookies example_injected None) ''a.example.com'' = None \<and>
   getSessionCookies (clearSessionCookies example_injected None) = None"
proof -
  let ?d = "''a.example.com''"
  have h1: "currentDomain example_injected = Some ?d" by code_simp
  have h2: "truthy ?d" by code_simp
  have h3: "sessionCookies example_injected ?d = Some [''X=1'', ''Y=2'', ''Z=3'']" by code_simp
  have h4: "currentDomain new_client = None" by code_simp
  have h5: "currentDomain (clearSessionCookies example_injected None) = Some ?d" by code_simp
  have h6: "sessionCookies (clearSessionCookies example_injected None) ?d = None" by code_simp
  have js: "js_join ''; '' [''X=1'', ''Y=2'', ''Z=3''] = ''X=1; Y=2; Z=3''" by simp
  from getSessionCookies_render [of example_injected ?d "[''X=1'', ''Y=2'', ''Z=3'']"] h1 h2 h3
  have "getSessionCookies example_injected = Some (js_join ''; '' [''X=1'', ''Y=2'', ''Z=3''])"
    by blast
  then have a: "getSessionCookies example_injected = Some ''X=1; Y=2; Z=3''" by (simp only: js)
  from getSessionCookies_render [of new_client] h4
  have b: "getSessionCookies new_client = None" by blast
  from getSessionCookies_render [of "clearSessionCookies example_injected None"] h5 h6
  have c: "getSessionCookies (clearSessionCookies example_injected None) = None" by blast
  from h1 h2 h3 h4 h5 h6 a b c example_injected_reachable show ?thesis by blast
qed

text \<open>
  C8 as stated fails in reachable states: after a manual injection of a blank string, or a
  response whose cookie has nothing before its attributes, the collection holds the empty
  entry, \<^verbatim>\<open>getSessionCookies\<close> gives the empty string, and an empty \<^verbatim>\<open>Cookie\<close> header is
  attached.
\<close>

theorem getSessionCookies_empty_string_counterexample:
  "reachable example_blank \<and>
   sessionCookies example_blank ''a.example.com'' = Some [[]] \<and>
   getSessionCookies example_blank = Some [] \<and>
   cookie_header example_blank = Some [] \<and>
   reachable (snd (executeMethod example_connected example_nameless ''Login'' ''{}'')) \<and>
   getSessionCookies (snd (executeMethod example_connected example_nameless ''Login'' ''{}'')) =
     Some []"
proof -
  have a: "sessionCookies example_blank ''a.example.com'' = Some [[]]" by code_simp
  have b: "getSessionCookies example_blank = Some []" by code_simp
  have c: "cookie_header example_blank = Some []" by code_simp
  have d: "getSessionCookies (snd (executeMethod example_connected example_nameless ''Login'' ''{}'')) =
     Some []" by code_simp
  from a b c d example_blank_reachable example_nameless_reachable show ?thesis by blast
qed

text \<open>Outside the reachable states: the empty collection renders as the empty string.\<close>

lemma getSessionCookies_empty_collection:
  "currentDomain st = Some d \<Longrightarrow> truthy d \<Longrightarrow> sessionCookies st d = Some [] \<Longrightarrow>
   getSessionCookies st = Some []"
  by (simp add: getSessionCookies_def)

section \<open>Properties of extraction\<close>

lemma extract_returned:
  "extractCookiesFromMultipleSources st (Some r) =
     (Returned (),
      case currentDomain st of
        None \<Rightarrow> st
      | Some d \<Rightarrow> if truthy d then extract_by_priority st r d else st)"
proof (cases "currentDomain st")
  case None
  then show ?thesis by (simp add: extractCookiesFromMultipleSources_def)
next
  case (Some d)
  show ?thesis
  proof (cases "truthy d")
    case False
    with Some show ?thesis by (simp add: extractCookiesFromMultipleSources_def)
  next
    case True
    have f: "(case finish (found st line v d) of
               (Threw e, s) \<Rightarrow> (Returned (), log s [ExtractionError e])
             | (Returned u, s) \<Rightarrow> (Returned (), s)) = (Returned (), handed st line v d)" for line v
      by (simp add: finish_def found_def handed_def split: prod.splits outcome.splits)
    have "(case extract_body st (Some r) d of
               (Threw e, s) \<Rightarrow> (Returned (), log s [ExtractionError e])
             | (Returned u, s) \<Rightarrow> (Returned (), s)) = (Returned (), extract_by_priority st r d)"
    proof (cases "client_set_cookie st")
      case (Some v)
      then show ?thesis
        by (simp add: extract_body_found1 f extract_by_priority_def sources_def)
    next
      case None
      note c = this
      show ?thesis
      proof (cases "raw_set_cookie r")
        case (Some v)
        with c show ?thesis
          by (simp add: extract_body_found2 f extract_by_priority_def sources_def)
      next
        case None
        note h = this
        show ?thesis
        proof (cases "text_set_cookie r")
          case None
          with c h show ?thesis
            by (simp add: extract_body_nothing extract_by_priority_def sources_def)
        next
          case (Some v)
          with c h show ?thesis
            by (simp add: extract_body_found3 f extract_by_priority_def sources_def)
        qed
      qed
    qed
    with Some True show ?thesis by (simp add: extractCookiesFromMultipleSources_def)
  qed
qed

lemma client_set_cookie_iff:
  "client_set_cookie st = Some v \<longleftrightarrow>
     (\<exists>c h. client st = Some c \<and> lastResponseHeaders c = Some h \<and>
            h ''set-cookie'' = Some v \<and> truthy_header v)"
  by (auto simp: client_set_cookie_def split: option.splits)

lemma raw_set_cookie_iff:
  "raw_set_cookie r = Some v \<longleftrightarrow>
     (\<exists>h. raw r = RawObject (Some h) \<and> h ''set-cookie'' = Some v \<and> truthy_header v)"
  by (auto simp: raw_set_cookie_def split: raw_response.splits option.splits)

lemma text_set_cookie_iff:
  "text_set_cookie r = Some v \<longleftrightarrow>
     (\<exists>s. raw r = RawText s \<and> scan_set_cookie s \<noteq> [] \<and>
          v = Many (map (\<lambda>m. JsString (strip_set_cookie m)) (scan_set_cookie s)))"
  by (auto simp: text_set_cookie_def split: raw_response.splits list.splits)

text \<open>
  C4 (as amended).  The three sources are: the \<^verbatim>\<open>set-cookie\<close> entry of the headers of the
  client's last response; that of the headers of the raw response object; the matches of
  the scan in a textual raw body.  The first two yield when the entry is truthy, which an
  array is even when empty; the third when there is a match.  With a current domain,
  extraction hands the value of the first source that yields, in this order, to
  \<^verbatim>\<open>processCookies\<close>, and nothing of the later sources: a value in the client's headers
  decides the outcome whatever the result holds.
\<close>

theorem extraction_first_present:
  assumes "currentDomain st = Some d" and "truthy d"
  shows "(client_set_cookie st = Some v \<longleftrightarrow>
            (\<exists>c h. client st = Some c \<and> lastResponseHeaders c = Some h \<and>
                   h ''set-cookie'' = Some v \<and> truthy_header v)) \<and>
         (raw_set_cookie r = Some v \<longleftrightarrow>
            (\<exists>h. raw r = RawObject (Some h) \<and> h ''set-cookie'' = Some v \<and> truthy_header v)) \<and>
         (text_set_cookie r = Some v \<longleftrightarrow>
            (\<exists>s. raw r = RawText s \<and> scan_set_cookie s \<noteq> [] \<and>
                 v = Many (map (\<lambda>m. JsString (strip_set_cookie m)) (scan_set_cookie s)))) \<and>
         extractCookiesFromMultipleSources st (Some r) = (Returned (), extract_by_priority st r d) \<and>
         (client_set_cookie st = Some v \<longrightarrow>
            extract_by_priority st r d = handed st FoundInClientHeaders v d) \<and>
         (client_set_cookie st = None \<and> raw_set_cookie r = Some v \<longrightarrow>
            extract_by_priority st r d = handed st FoundInRawHeaders v d) \<and>
         (client_set_cookie st = None \<and> raw_set_cookie r = None \<and> text_set_cookie r = Some v \<longrightarrow>
            extract_by_priority st r d = handed st FoundInRawText v d) \<and>
         (client_set_cookie st = None \<and> raw_set_cookie r = None \<and> text_set_cookie r = None \<longrightarrow>
            extract_by_priority st r d = log st [NoCookiesFound])"
proof -
  have "extractCookiesFromMultipleSources st (Some r) = (Returned (), extract_by_priority st r d)"
    using assms by (simp add: extract_returned)
  moreover have "client_set_cookie st = Some v \<longrightarrow>
            extract_by_priority st r d = handed st FoundInClientHeaders v d"
    by (simp add: extract_by_priority_def sources_def)
  moreover have "client_set_cookie st = None \<and> raw_set_cookie r = Some v \<longrightarrow>
            extract_by_priority st r d = handed st FoundInRawHeaders v d"
    by (simp add: extract_by_priority_def sources_def)
  moreover have "client_set_cookie st = None \<and> raw_set_cookie r = None \<and> text_set_cookie r = Some v \<longrightarrow>
            extract_by_priority st r d = handed st FoundInRawText v d"
    by (simp add: extract_by_priority_def sources_def)
  moreover have "client_set_cookie st = None \<and> raw_set_cookie r = None \<and> text_set_cookie r = None \<longrightarrow>
            extract_by_priority st r d = log st [NoCookiesFound]"
    by (simp add: extract_by_priority_def sources_def)
  ultimately show ?thesis
    by (intro conjI client_set_cookie_iff raw_set_cookie_iff text_set_cookie_iff)
qed

theorem extraction_first_present_witness:
  "currentDomain example_both = Some ''a.example.com'' \<and> truthy ''a.example.com'' \<and>
   client_set_cookie example_both = Some (Many [JsString ''SID=abc123; Path=/'']) \<and>
   text_set_cookie example_body = Some (Many [JsString ''OTHER=zzz; Path=/'']) \<and>
   sessionCookies (snd (extractCookiesFromMultipleSources example_both (Some example_body)))
     ''a.example.com'' = Some [''SID=abc123''] \<and>
   currentDomain example_authenticated = Some ''a.example.com'' \<and>
   client_set_cookie example_authenticated = None \<and>
   raw_set_cookie example_raw_object = Some (Many [JsString ''R=2; Path=/'']) \<and>
   sessionCookies
     (snd (extractCookiesFromMultipleSources example_authenticated (Some example_raw_object)))
     ''a.example.com'' = Some [''R=2''] \<and>
   raw_set_cookie example_body = None \<and>
   sessionCookies (snd (extractCookiesFromMultipleSources example_authenticated (Some example_body)))
     ''a.example.com'' = Some [''OTHER=zzz''] \<and>
   raw_set_cookie example_session_result = None \<and> text_set_cookie example_session_result = None \<and>
   console (snd (extractCookiesFromMultipleSources example_authenticated (Some example_session_result))) =
     [NoCookiesFound]"
proof -
  let ?d = "''a.example.com''"
  have d1: "currentDomain example_both = Some ?d" by code_simp
  have d2: "currentDomain example_authenticated = Some ?d" by code_simp
  have t: "truthy ?d" by code_simp
  have c1: "client_set_cookie example_both = Some (Many [JsString ''SID=abc123; Path=/''])"
    by code_simp
  have c2: "client_set_cookie example_authenticated = None" by code_simp
  have r1: "raw_set_cookie example_raw_object = Some (Many [JsString ''R=2; Path=/''])"
    by code_simp
  have r2: "raw_set_cookie example_body = None" by code_simp
  have r3: "raw_set_cookie example_session_result = None" by code_simp
  have x1: "text_set_cookie example_body = Some (Many [JsString ''OTHER=zzz; Path=/''])"
    by code_simp
  have x3: "text_set_cookie example_session_result = None" by code_simp
  have v1: "sessionCookies
             (handed example_both FoundInClientHeaders (Many [JsString ''SID=abc123; Path=/'']) ?d)
             ?d = Some [''SID=abc123'']" by code_simp
  have v2: "sessionCookies
             (handed example_authenticated FoundInRawHeaders (Many [JsString ''R=2; Path=/'']) ?d)
             ?d = Some [''R=2'']" by code_simp
  have v3: "sessionCookies
             (handed example_authenticated FoundInRawText (Many [JsString ''OTHER=zzz; Path=/'']) ?d)
             ?d = Some [''OTHER=zzz'']" by code_simp
  have l: "console example_authenticated = []" by code_simp
  note a = extraction_first_present [OF d1 t, of "Many [JsString ''SID=abc123; Path=/'']" example_body]
  note b = extraction_first_present [OF d2 t, of "Many [JsString ''R=2; Path=/'']" example_raw_object]
  note c = extraction_first_present [OF d2 t, of "Many [JsString ''OTHER=zzz; Path=/'']" example_body]
  note e = extraction_first_present [OF d2 t, of undefined example_session_result]
  from a c1 have "snd (extractCookiesFromMultipleSources example_both (Some example_body)) =
      handed example_both FoundInClientHeaders (Many [JsString ''SID=abc123; Path=/'']) ?d"
    by simp
  with v1 have s1: "sessionCookies (snd (extractCookiesFromMultipleSources example_both (Some example_body)))
     ?d = Some [''SID=abc123'']" by simp
  from b c2 r1 have "snd (extractCookiesFromMultipleSources example_authenticated (Some example_raw_object)) =
      handed example_authenticated FoundInRawHeaders (Many [JsString ''R=2; Path=/'']) ?d"
    by simp
  with v2 have s2: "sessionCookies
     (snd (extractCookiesFromMultipleSources example_authenticated (Some example_raw_object)))
     ?d = Some [''R=2'']" by simp
  from c c2 r2 x1 have "snd (extractCookiesFromMultipleSources example_authenticated (Some example_body)) =
      handed example_authenticated FoundInRawText (Many [JsString ''OTHER=zzz; Path=/'']) ?d"
    by simp
  with v3 have s3: "sessionCookies
     (snd (extractCookiesFromMultipleSources example_authenticated (Some example_body)))
     ?d = Some [''OTHER=zzz'']" by simp
  from e c2 r3 x3 have "snd (extractCookiesFromMultipleSources example_authenticated (Some example_session_result)) =
      log example_authenticated [NoCookiesFound]"
    by simp
  with l have s4: "console (snd
      (extractCookiesFromMultipleSources example_authenticated (Some example_session_result))) =
     [NoCookiesFound]" by simp
  from d1 d2 t c1 c2 r1 r2 r3 x1 x3 s1 s2 s3 s4 show ?thesis by blast
qed

text \<open>
  C4 as stated fails: an empty array in the client's headers yields no cookie value and
  still ends the search, so the cookie in the body, stored when the headers have no such
  entry, is not stored.
\<close>

theorem extraction_empty_array_counterexample:
  "client_set_cookie example_empty_headers = Some (Many []) \<and>
   cookie_array (Many []) = [] \<and>
   text_set_cookie example_token_body = Some (Many [JsString ''T=1'']) \<and>
   sessionCookies
     (snd (extractCookiesFromMultipleSources example_empty_headers (Some example_token_body)))
     ''a.example.com'' = None \<and>
   sessionCookies
     (snd (extractCookiesFromMultipleSources example_authenticated (Some example_token_body)))
     ''a.example.com'' = Some [''T=1'']"
  by code_simp

subsection \<open>Calls of applyCookiesForDomain, counted on the console\<close>



lemma apply_calls_append [simp]: "apply_calls (xs @ ys) = apply_calls xs + apply_calls ys"
  by (simp add: apply_calls_def)





lemma executeMethod_success:
  assumes "client st = Some c" and "invoke c m p = RpcSuccess r h"
  shows "executeMethod st invoke m p =
           (Returned (payload r),
            snd (extractCookiesFromMultipleSources
                   (st\<lparr>client := Some (c\<lparr>lastResponseHeaders := h\<rparr>)\<rparr>) (Some r)))"
  using assms by (simp add: executeMethod_def extract_returned)





section \<open>Properties of the coordinator\<close>

text \<open>
  C6 (as amended).  Without a connection \<^verbatim>\<open>executeMethod\<close> throws the error "Not connected to any
  service" and changes nothing.  With a connection and a failing call it throws the error
  of the call, after one line on the console that names the method; the store and the
  \<^verbatim>\<open>Cookie\<close> header are as before, only the library's record of the last response
  changes.
\<close>

theorem executeMethod_failures:
  "(client st = None \<longrightarrow>
      executeMethod st invoke m p = (Threw (Error ''Not connected to any service''), st)) \<and>
   (client st = Some c \<and> invoke c m p = RpcFailure e h \<longrightarrow>
      fst (executeMethod st invoke m p) = Threw e \<and>
      snd (executeMethod st invoke m p) =
        st\<lparr>client := Some (c\<lparr>lastResponseHeaders := h\<rparr>),
           console := console st @ [ExecuteFailed m e]\<rparr> \<and>
      sessionCookies (snd (executeMethod st invoke m p)) = sessionCookies st \<and>
      cookie_header (snd (executeMethod st invoke m p)) = cookie_header st)"
  by (simp add: executeMethod_def log_def cookie_header_def)

theorem executeMethod_failures_witness:
  "client new_client = None \<and>
   executeMethod new_client example_login ''Login'' ''{}'' =
     (Threw (Error ''Not connected to any service''), new_client) \<and>
   client example_session = Some \<lparr>httpHeaders = Map.empty, lastResponseHeaders = None\<rparr> \<and>
   example_fault \<lparr>httpHeaders = Map.empty, lastResponseHeaders = None\<rparr> ''Login'' ''{}'' =
     RpcFailure (Error ''soap:Server'') None \<and>
   fst (executeMethod example_session example_fault ''Login'' ''{}'') =
     Threw (Error ''soap:Server'') \<and>
   console (snd (executeMethod example_session example_fault ''Login'' ''{}'')) =
     [ExecuteFailed ''Login'' (Error ''soap:Server'')] \<and>
   sessionCookies (snd (executeMethod example_session example_fault ''Login'' ''{}'')) =
     sessionCookies example_session"
proof -
  let ?c = "\<lparr>httpHeaders = Map.empty, lastResponseHeaders = None\<rparr>"
  have n: "client new_client = None" by (simp add: new_client_def)
  have c: "client example_session = Some ?c" by (simp add: example_session_def)
  have f: "example_fault ?c ''Login'' ''{}'' = RpcFailure (Error ''soap:Server'') None"
    by (simp add: example_fault_def)
  have l: "console example_session = []" by (simp add: example_session_def)
  note t1 = executeMethod_failures [of new_client example_login "''Login''" "''{}''"]
  note t2 = executeMethod_failures [of example_session example_fault "''Login''" "''{}''" ?c
      "Error ''soap:Server''" None]
  from t1 n have a: "executeMethod new_client example_login ''Login'' ''{}'' =
     (Threw (Error ''Not connected to any service''), new_client)" by blast
  from t2 c f have b: "fst (executeMethod example_session example_fault ''Login'' ''{}'') =
     Threw (Error ''soap:Server'')"
    and s: "snd (executeMethod example_session example_fault ''Login'' ''{}'') =
        example_session\<lparr>client := Some (?c\<lparr>lastResponseHeaders := None\<rparr>),
           console := console example_session @ [ExecuteFailed ''Login'' (Error ''soap:Server'')]\<rparr>"
    and k: "sessionCookies (snd (executeMethod example_session example_fault ''Login'' ''{}'')) =
     sessionCookies example_session"
    by blast+
  from arg_cong [OF s, of console] l
  have g: "console (snd (executeMethod example_session example_fault ''Login'' ''{}'')) =
     [ExecuteFailed ''Login'' (Error ''soap:Server'')]" by simp
  from n a c f b g k show ?thesis by blast
qed

text \<open>
  C6 as stated fails: the caller receives the error of the library as it is, the same
  whatever the method; the name of the method is on the console only.
\<close>

theorem executeMethod_error_unchanged_counterexample:
  "fst (executeMethod example_session example_fault ''Login'' ''{}'') =
     Threw (Error ''soap:Server'') \<and>
   fst (executeMethod example_session example_fault ''Logout'' ''{}'') =
     Threw (Error ''soap:Server'') \<and>
   console (snd (executeMethod example_session example_fault ''Login'' ''{}'')) =
     [ExecuteFailed ''Login'' (Error ''soap:Server'')]"
  by code_simp

text \<open>
  C10.  \<^verbatim>\<open>extractCookiesFromMultipleSources\<close> returns for every state and every result,
  also a null one; without a current domain it returns at once and changes nothing; and a
  successful call of \<^verbatim>\<open>executeMethod\<close> returns the payload of the result.
\<close>

theorem extraction_never_raises:
  "fst (extractCookiesFromMultipleSources st result) = Returned () \<and>
   ((currentDomain st = None \<or> currentDomain st = Some []) \<longrightarrow>
      extractCookiesFromMultipleSources st result = (Returned (), st)) \<and>
   (client st = Some c \<and> invoke c m p = RpcSuccess r h \<longrightarrow>
      fst (executeMethod st invoke m p) = Returned (payload r))"
proof (intro conjI impI)
  show "fst (extractCookiesFromMultipleSources st result) = Returned ()"
    by (simp add: extractCookiesFromMultipleSources_def split: option.splits prod.splits outcome.splits)
next
  assume "currentDomain st = None \<or> currentDomain st = Some []"
  then show "extractCookiesFromMultipleSources st result = (Returned (), st)"
    by (auto simp: extractCookiesFromMultipleSources_def truthy_def)
next
  assume "client st = Some c \<and> invoke c m p = RpcSuccess r h"
  then show "fst (executeMethod st invoke m p) = Returned (payload r)"
    using executeMethod_success [of st c invoke m p r h] by simp
qed

theorem extraction_never_raises_witness:
  "client example_session = Some \<lparr>httpHeaders = Map.empty, lastResponseHeaders = None\<rparr> \<and>
   example_empty_array \<lparr>httpHeaders = Map.empty, lastResponseHeaders = None\<rparr> ''Ping'' ''{}'' =
     RpcSuccess \<lparr>payload = ''pong'', raw = RawAbsent\<rparr> (Some [''set-cookie'' \<mapsto> Many []]) \<and>
   fst (processCookies (clearSessionCookies example_session None) (Many []) ''a.example.com'') =
     Threw TypeError \<and>
   fst (executeMethod (clearSessionCookies example_session None) example_empty_array ''Ping'' ''{}'') =
     Returned ''pong'' \<and>
   last (console
     (snd (executeMethod (clearSessionCookies example_session None) example_empty_array
             ''Ping'' ''{}''))) = ExtractionError TypeError \<and>
   fst (extractCookiesFromMultipleSources example_session None) = Returned () \<and>
   console (snd (extractCookiesFromMultipleSources example_session None)) =
     [ExtractionError TypeError] \<and>
   currentDomain new_client = None \<and>
   extractCookiesFromMultipleSources new_client None = (Returned (), new_client)"
proof -
  let ?c = "\<lparr>httpHeaders = Map.empty, lastResponseHeaders = None\<rparr>"
  let ?r = "\<lparr>payload = ''pong'', raw = RawAbsent\<rparr>"
  let ?h = "Some [''set-cookie'' \<mapsto> Many []]"
  let ?st = "clearSessionCookies example_session None"
  have c0: "client example_session = Some ?c" by (simp add: example_session_def)
  have c: "client ?st = Some ?c"
    by (simp add: example_session_def clearSessionCookies_def truthy_def)
  have f: "example_empty_array ?c ''Ping'' ''{}'' = RpcSuccess ?r ?h"
    by (simp add: example_empty_array_def)
  have t: "fst (processCookies ?st (Many []) ''a.example.com'') = Threw TypeError" by code_simp
  have l: "last (console (snd (executeMethod ?st example_empty_array ''Ping'' ''{}''))) =
           ExtractionError TypeError" by code_simp
  have l2: "console (snd (extractCookiesFromMultipleSources example_session None)) =
     [ExtractionError TypeError]" by code_simp
  have n: "currentDomain new_client = None" by (simp add: new_client_def)
  from extraction_never_raises [of ?st undefined ?c example_empty_array "''Ping''" "''{}''" ?r ?h] c f
  have a: "fst (executeMethod ?st example_empty_array ''Ping'' ''{}'') = Returned (payload ?r)"
    by blast
  then have a': "fst (executeMethod ?st example_empty_array ''Ping'' ''{}'') = Returned ''pong''"
    by simp
  from extraction_never_raises [of example_session None]
  have b: "fst (extractCookiesFromMultipleSources example_session None) = Returned ()" by blast
  from extraction_never_raises [of new_client None] n
  have d: "extractCookiesFromMultipleSources new_client None = (Returned (), new_client)" by blast
  from c0 f t a' l b l2 n d show ?thesis by blast
qed

lemma preload_headers_wsdlUrl [simp]:
  "preload_headers (st\<lparr>wsdlUrl := w\<rparr>) t hdrs = preload_headers st t hdrs"
  by (simp add: preload_headers_def preloaded_def domain_cookies_def)

text \<open>
  C5 (as amended).  When the constructor of the SOAP client fails, \<^verbatim>\<open>connect\<close> returns
  false after a line on the console with the error; it throws nothing.  The connection,
  the store, the current domain, the service URL and \<^verbatim>\<open>authCookie\<close> are as before the
  attempt: a session without a connection still has none, a connected one keeps its old
  connection.
\<close>

theorem connect_construction_fails:
  assumes "hostname url = Some t"
    and "createClient url (preload_headers st t wsdl_headers) = ConstructionFails e"
  shows "fst (connect st hostname createClient url wsdl_headers) = Returned False \<and>
         client (snd (connect st hostname createClient url wsdl_headers)) = client st \<and>
         connected (snd (connect st hostname createClient url wsdl_headers)) = connected st \<and>
         sessionCookies (snd (connect st hostname createClient url wsdl_headers)) = sessionCookies st \<and>
         currentDomain (snd (connect st hostname createClient url wsdl_headers)) = currentDomain st \<and>
         serviceUrl (snd (connect st hostname createClient url wsdl_headers)) = serviceUrl st \<and>
         authCookie (snd (connect st hostname createClient url wsdl_headers)) = authCookie st \<and>
         last (console (snd (connect st hostname createClient url wsdl_headers))) = ConnectFailed e"
  using assms by (simp add: connect_def connect_failed_def Let_def connected_def)

theorem connect_construction_fails_witness:
  "example_hostname ''http://a.example.com/Login.svc?wsdl'' = Some ''a.example.com'' \<and>
   example_refused ''http://a.example.com/Login.svc?wsdl''
     (preload_headers new_client ''a.example.com'' None) = ConstructionFails (Error ''ECONNREFUSED'') \<and>
   fst (connect new_client example_hostname example_refused
          ''http://a.example.com/Login.svc?wsdl'' None) = Returned False \<and>
   \<not> connected new_client \<and>
   \<not> connected (snd (connect new_client example_hostname example_refused
                        ''http://a.example.com/Login.svc?wsdl'' None)) \<and>
   sessionCookies (snd (connect new_client example_hostname example_refused
                          ''http://a.example.com/Login.svc?wsdl'' None)) = sessionCookies new_client \<and>
   currentDomain (snd (connect new_client example_hostname example_refused
                         ''http://a.example.com/Login.svc?wsdl'' None)) = None \<and>
   last (console (snd (connect new_client example_hostname example_refused
                         ''http://a.example.com/Login.svc?wsdl'' None))) =
     ConnectFailed (Error ''ECONNREFUSED'')"
proof -
  have h1: "example_hostname ''http://a.example.com/Login.svc?wsdl'' = Some ''a.example.com''"
    by code_simp
  have h2: "example_refused ''http://a.example.com/Login.svc?wsdl''
     (preload_headers new_client ''a.example.com'' None) = ConstructionFails (Error ''ECONNREFUSED'')"
    by (simp add: example_refused_def)
  have n: "\<not> connected new_client" "currentDomain new_client = None"
    by (simp_all add: new_client_def connected_def)
  from connect_construction_fails [of example_hostname "''http://a.example.com/Login.svc?wsdl''"
      "''a.example.com''" example_refused new_client None "Error ''ECONNREFUSED''"] h1 h2 n
  show ?thesis by simp
qed

text \<open>
  C5 as stated fails for a session that is connected: after the failed attempt it
  is still connected, to the old service, \<^verbatim>\<open>connect\<close> has returned false and thrown
  nothing, and \<^verbatim>\<open>wsdlUrl\<close> holds the URL of the attempt.
\<close>

theorem connect_keeps_old_connection_counterexample:
  "fst (connect example_session example_hostname example_refused
          ''http://b.example.org/Other.svc?wsdl'' None) = Returned False \<and>
   connected example_session \<and>
   connected (snd (connect example_session example_hostname example_refused
                     ''http://b.example.org/Other.svc?wsdl'' None)) \<and>
   currentDomain (snd (connect example_session example_hostname example_refused
                         ''http://b.example.org/Other.svc?wsdl'' None)) = Some ''a.example.com'' \<and>
   wsdlUrl example_session = Some ''http://a.example.com/Login.svc?wsdl'' \<and>
   wsdlUrl (snd (connect example_session example_hostname example_refused
                   ''http://b.example.org/Other.svc?wsdl'' None)) =
     Some ''http://b.example.org/Other.svc?wsdl''"
  by code_simp

end
